theory Spec2Isabelle
  imports Main
begin

section \<open>Exceptions, aborts and undefined behaviour\<close>

text \<open>
  The two exception classes of the parser carry their message. \<open>out_of_range\<close> is the
  exception of \<open>std::string_view::substr\<close>, \<open>assertion_failed\<close> a failing \<open>assert\<close>
  (the program is built with assertions: \<open>NFA::optimize\<close> erases a reverse transition
  inside one), \<open>undefined_behaviour\<close> an access the C++ standard leaves undefined
  (an index past the end of a vector, a null pointer).
\<close>

datatype error =
    syntax_error string
  | unbalanced_brackets string
  | out_of_range
  | assertion_failed
  | undefined_behaviour

section \<open>Characters and string views\<close>

text \<open>
  \<open>char\<close> is a signed byte on the platforms the program targets; comparisons of two
  \<open>char\<close>s promote them to \<open>int\<close>.
\<close>

definition schar :: "char \<Rightarrow> int" where
  "schar c = (let n = int (of_char c) in if n < 128 then n else n - 256)"

text \<open>
  A \<open>std::string_view\<close> is a pointer and a size. The model keeps the \<open>size()\<close> characters of
  the view and the byte stored right after them: \<open>str[0]\<close> on an empty view reads that
  byte (the terminating NUL when the view ends where a \<open>std::string\<close> or a literal ends).
\<close>

record string_view =
  sv_chars :: string
  sv_past :: char

definition sv_empty :: "string_view \<Rightarrow> bool" where
  "sv_empty str = (sv_chars str = [])"

definition sv_front :: "string_view \<Rightarrow> char" where
  "sv_front str = (case sv_chars str of [] \<Rightarrow> sv_past str | c # _ \<Rightarrow> c)"

definition sv_size :: "string_view \<Rightarrow> nat" where
  "sv_size str = length (sv_chars str)"

text \<open>\<open>substr(pos)\<close> throws when \<open>pos > size()\<close>.\<close>

definition sv_substr :: "string_view \<Rightarrow> nat \<Rightarrow> error + string_view" where
  "sv_substr str pos =
     (if pos > sv_size str then Inl out_of_range
      else Inr (str\<lparr>sv_chars := drop pos (sv_chars str)\<rparr>))"

text \<open>The view of a NUL-terminated string, as \<open>main\<close> builds them.\<close>

definition view :: "string \<Rightarrow> string_view" where
  "view s = \<lparr>sv_chars = s, sv_past = CHR 0x00\<rparr>"

section \<open>Matchers\<close>

record CharacterClassMatcher =
  invert :: bool
  intervals :: "(char \<times> char) list"

datatype Matcher =
    EpsilonMatcher
  | CharacterMatcher char
  | UniversalMatcher
  | ClassMatcher CharacterClassMatcher

fun matcher_length :: "Matcher \<Rightarrow> nat" where
  "matcher_length EpsilonMatcher = 0"
| "matcher_length (CharacterMatcher c) = 1"
| "matcher_length UniversalMatcher = 1"
| "matcher_length (ClassMatcher k) = 1"

text \<open>\<open>CharacterClassMatcher::_non_inverting_match\<close>: reads \<open>str[0]\<close> without a test of \<open>str\<close>.\<close>

definition non_inverting_match :: "CharacterClassMatcher \<Rightarrow> string_view \<Rightarrow> bool" where
  "non_inverting_match k str =
     list_ex (\<lambda>interval. schar (sv_front str) \<ge> schar (fst interval)
                        \<and> schar (sv_front str) \<le> schar (snd interval)) (intervals k)"

text \<open>\<open>CharacterClassMatcher::match\<close>: \<open>invert ^ _non_inverting_match(str)\<close>.\<close>

definition class_match :: "CharacterClassMatcher \<Rightarrow> string_view \<Rightarrow> bool" where
  "class_match k str = (invert k \<noteq> non_inverting_match k str)"

fun match :: "Matcher \<Rightarrow> string_view \<Rightarrow> bool" where
  "match EpsilonMatcher str = True"
| "match (CharacterMatcher cmatch) str = (\<not> sv_empty str \<and> sv_front str = cmatch)"
| "match UniversalMatcher str = (\<not> sv_empty str)"
| "match (ClassMatcher k) str = class_match k str"

text \<open>What the specification's table says of a class: the first character is covered.\<close>

definition covers :: "CharacterClassMatcher \<Rightarrow> char \<Rightarrow> bool" where
  "covers k c = (\<exists>interval \<in> set (intervals k).
                   schar (fst interval) \<le> schar c \<and> schar c \<le> schar (snd interval))"

subsection \<open>Normalisation of a class\<close>

definition pair_less :: "char \<times> char \<Rightarrow> char \<times> char \<Rightarrow> bool" where
  "pair_less p q = (schar (fst p) < schar (fst q)
                    \<or> (schar (fst p) = schar (fst q) \<and> schar (snd p) < schar (snd q)))"

fun insert_interval :: "char \<times> char \<Rightarrow> (char \<times> char) list \<Rightarrow> (char \<times> char) list" where
  "insert_interval p [] = [p]"
| "insert_interval p (q # qs) = (if pair_less q p then q # insert_interval p qs else p # q # qs)"

text \<open>\<open>std::sort\<close> of the pairs, by \<open>operator<\<close> of \<open>std::pair\<close> (a total order on them).\<close>

definition sort_intervals :: "(char \<times> char) list \<Rightarrow> (char \<times> char) list" where
  "sort_intervals ps = foldr insert_interval ps []"

definition char_min :: "char \<Rightarrow> char \<Rightarrow> char" where
  "char_min a b = (if schar b < schar a then b else a)"

definition char_max :: "char \<Rightarrow> char \<Rightarrow> char" where
  "char_max a b = (if schar a < schar b then b else a)"

text \<open>
  One round of the merging loop: \<open>k\<close> is the position of \<open>interval\<close>, the state is
  \<open>mergedIndex\<close> and the vector, which the loop rewrites in place.
\<close>

definition merge_step :: "nat \<Rightarrow> nat \<times> (char \<times> char) list \<Rightarrow> nat \<times> (char \<times> char) list" where
  "merge_step k s =
     (let mergedIndex = fst s; ivs = snd s; interval = ivs ! k in
      if schar (fst interval) \<le> schar (snd (ivs ! mergedIndex)) + 1
      then (mergedIndex,
            ivs[mergedIndex := (fst (ivs ! mergedIndex),
                                char_max (snd interval) (snd (ivs ! mergedIndex)))])
      else (mergedIndex + 1, ivs[mergedIndex + 1 := interval]))"

definition normalize :: "CharacterClassMatcher \<Rightarrow> CharacterClassMatcher" where
  "normalize k =
     (if intervals k = [] then k
      else let ordered = map (\<lambda>interval. (char_min (fst interval) (snd interval),
                                          char_max (fst interval) (snd interval))) (intervals k);
               sorted = sort_intervals ordered;
               merged = fold merge_step [0..<length sorted] (0, sorted)
           in k\<lparr>intervals := take (fst merged + 1) (snd merged)\<rparr>)"

definition empty :: "CharacterClassMatcher \<Rightarrow> bool" where
  "empty k = (length (intervals k) = 0)"

definition singlec :: "CharacterClassMatcher \<Rightarrow> bool" where
  "singlec k = (\<not> invert k \<and> length (intervals k) = 1
                \<and> fst (intervals k ! 0) = snd (intervals k ! 0))"

definition character :: "CharacterClassMatcher \<Rightarrow> char" where
  "character k = (if intervals k \<noteq> [] then fst (intervals k ! 0) else CHR 0x00)"

section \<open>The abstract syntax tree\<close>

text \<open>
  The four leaves are the matchers themselves (they inherit from both \<open>ASTNode\<close> and
  \<open>Matcher\<close>). \<open>BracketNode\<close> carries \<open>capture\<close>, the quantifiers carry \<open>greedy\<close>,
  \<open>MultiplyNode\<close> carries \<open>min\<close>, \<open>max\<close>, \<open>unbounded\<close> and \<open>greedy\<close>. The \<open>parent\<close> pointer of a
  node is the node that holds it; the model finds it from the position of the node.
\<close>

datatype ASTNode =
    Leaf Matcher
  | BracketNode bool ASTNode
  | KleeneStarNode bool ASTNode
  | OneOrMoreNode bool ASTNode
  | OneOrNoneNode bool ASTNode
  | MultiplyNode nat nat bool bool ASTNode
  | ConcatenationNode "ASTNode list"
  | DisjunctionNode "ASTNode list"

fun accept_epsilon :: "ASTNode \<Rightarrow> bool" where
  "accept_epsilon (Leaf m) = (m = EpsilonMatcher)"
| "accept_epsilon (BracketNode capture child) = accept_epsilon child"
| "accept_epsilon (KleeneStarNode greedy child) = True"
| "accept_epsilon (OneOrMoreNode greedy child) = accept_epsilon child"
| "accept_epsilon (OneOrNoneNode greedy child) = True"
| "accept_epsilon (MultiplyNode mn mx unbounded greedy child) = (mn = 0 \<or> accept_epsilon child)"
| "accept_epsilon (ConcatenationNode childs) = list_all accept_epsilon childs"
| "accept_epsilon (DisjunctionNode childs) = list_ex accept_epsilon childs"

text \<open>\<open>MultiplyNode::exact\<close>.\<close>

definition exact :: "nat \<Rightarrow> nat \<Rightarrow> bool \<Rightarrow> bool" where
  "exact mn mx unbounded = (\<not> unbounded \<and> mn = mx)"

record AST =
  root :: ASTNode
  anchorBegin :: bool
  anchorEnd :: bool

text \<open>\<open>size_t\<close> arithmetic wraps at 64 bits.\<close>

definition size_t :: "nat \<Rightarrow> nat" where
  "size_t n = n mod 2 ^ 64"

section \<open>The parser\<close>

subsection \<open>Insertion slots\<close>

text \<open>
  \<open>activenode\<close> is a stack of pointers to the \<open>unique_ptr\<close> slots of the tree. A slot is
  modelled by its position: the child indices on the way from \<open>ast.root\<close> (index 0 for
  the child of a single-child node). A pointer that no longer leads to a slot has no
  node (\<open>None\<close>).
\<close>

type_synonym slot = "nat list"

fun slot_get :: "ASTNode \<Rightarrow> slot \<Rightarrow> ASTNode option" where
  "slot_get t [] = Some t"
| "slot_get (Leaf m) (i # p) = None"
| "slot_get (BracketNode capture child) (i # p) = (if i = 0 then slot_get child p else None)"
| "slot_get (KleeneStarNode greedy child) (i # p) = (if i = 0 then slot_get child p else None)"
| "slot_get (OneOrMoreNode greedy child) (i # p) = (if i = 0 then slot_get child p else None)"
| "slot_get (OneOrNoneNode greedy child) (i # p) = (if i = 0 then slot_get child p else None)"
| "slot_get (MultiplyNode mn mx unbounded greedy child) (i # p) =
     (if i = 0 then slot_get child p else None)"
| "slot_get (ConcatenationNode childs) (i # p) =
     (if i < length childs then slot_get (childs ! i) p else None)"
| "slot_get (DisjunctionNode childs) (i # p) =
     (if i < length childs then slot_get (childs ! i) p else None)"

fun slot_set :: "ASTNode \<Rightarrow> slot \<Rightarrow> ASTNode \<Rightarrow> ASTNode" where
  "slot_set t [] new = new"
| "slot_set (Leaf m) (i # p) new = Leaf m"
| "slot_set (BracketNode capture child) (i # p) new = BracketNode capture (slot_set child p new)"
| "slot_set (KleeneStarNode greedy child) (i # p) new = KleeneStarNode greedy (slot_set child p new)"
| "slot_set (OneOrMoreNode greedy child) (i # p) new = OneOrMoreNode greedy (slot_set child p new)"
| "slot_set (OneOrNoneNode greedy child) (i # p) new = OneOrNoneNode greedy (slot_set child p new)"
| "slot_set (MultiplyNode mn mx unbounded greedy child) (i # p) new =
     MultiplyNode mn mx unbounded greedy (slot_set child p new)"
| "slot_set (ConcatenationNode childs) (i # p) new =
     ConcatenationNode (childs[i := slot_set (childs ! i) p new])"
| "slot_set (DisjunctionNode childs) (i # p) new =
     DisjunctionNode (childs[i := slot_set (childs ! i) p new])"

text \<open>The \<open>parent\<close> pointer of the node in a slot: null for the root slot.\<close>

definition parent :: "ASTNode \<Rightarrow> slot \<Rightarrow> ASTNode option" where
  "parent t p = (if p = [] then None else slot_get t (butlast p))"

fun is_Bracket :: "ASTNode \<Rightarrow> bool" where
  "is_Bracket (BracketNode capture child) = True"
| "is_Bracket n = False"

fun is_Concatenation :: "ASTNode \<Rightarrow> bool" where
  "is_Concatenation (ConcatenationNode childs) = True"
| "is_Concatenation n = False"

fun is_Disjunction :: "ASTNode \<Rightarrow> bool" where
  "is_Disjunction (DisjunctionNode childs) = True"
| "is_Disjunction n = False"

subsection \<open>The state of the scan\<close>

record parser =
  tree :: ASTNode
  activenode :: "slot list"
  balanced_brackets :: int
  escaped :: bool
  multiply_environment :: bool
  multiply_environment_max :: bool
  multiply_environment_max_str :: bool
  character_class_environment :: bool
  character_class_environment_interval :: bool
  lazymodifier :: bool
  objbuff :: "CharacterClassMatcher option"

definition initial_parser :: parser where
  "initial_parser =
     \<lparr>tree = Leaf EpsilonMatcher, activenode = [[]], balanced_brackets = 0, escaped = False,
      multiply_environment = False, multiply_environment_max = False,
      multiply_environment_max_str = False, character_class_environment = False,
      character_class_environment_interval = False, lazymodifier = False, objbuff = None\<rparr>"

text \<open>The node in the slot on top of the stack; none when the stack is empty.\<close>

definition top_node :: "parser \<Rightarrow> ASTNode option" where
  "top_node st = (case activenode st of [] \<Rightarrow> None | p # ps \<Rightarrow> slot_get (tree st) p)"

text \<open>\<open>*activenode.top() = w(std::move(*activenode.top()))\<close>: the wrapper takes the parent over.\<close>

definition wrap_top :: "(ASTNode \<Rightarrow> ASTNode) \<Rightarrow> parser \<Rightarrow> error + parser" where
  "wrap_top w st =
     (case activenode st of
        [] \<Rightarrow> Inl undefined_behaviour
      | p # ps \<Rightarrow>
          (case slot_get (tree st) p of
             None \<Rightarrow> Inl undefined_behaviour
           | Some n \<Rightarrow> Inr (st\<lparr>tree := slot_set (tree st) p (w n)\<rparr>)))"

subsection \<open>Inside a character class\<close>

text \<open>A character other than an unescaped \<open>[\<close> or \<open>]\<close>, read inside \<open>[...]\<close>.\<close>

definition class_member :: "parser \<Rightarrow> char \<Rightarrow> error + parser" where
  "class_member st c =
     (case objbuff st of
        None \<Rightarrow> Inl undefined_behaviour
      | Some k \<Rightarrow>
          if c = CHR ''^'' \<and> \<not> escaped st then
            Inr (st\<lparr>objbuff := Some (k\<lparr>invert := True\<rparr>), escaped := False\<rparr>)
          else if c = CHR ''-'' \<and> \<not> escaped st then
            (if length (intervals k) \<noteq> 0
             then Inr (st\<lparr>character_class_environment_interval := True, escaped := False\<rparr>)
             else Inl (syntax_error ''syntax error''))
          else if character_class_environment_interval st then
            (if intervals k = [] then Inl undefined_behaviour
             else let last_interval = length (intervals k) - 1;
                      e = fst (intervals k ! last_interval)
                  in Inr (st\<lparr>objbuff := Some (k\<lparr>intervals := (intervals k)[last_interval := (e, c)]\<rparr>),
                             character_class_environment_interval := False, escaped := False\<rparr>))
          else Inr (st\<lparr>objbuff := Some (k\<lparr>intervals := intervals k @ [(c, c)]\<rparr>),
                       escaped := False\<rparr>))"

subsection \<open>Inside a repetition count\<close>

fun set_min_max :: "(nat \<Rightarrow> nat \<Rightarrow> bool \<Rightarrow> nat \<times> nat \<times> bool) \<Rightarrow> ASTNode \<Rightarrow> ASTNode option" where
  "set_min_max f (MultiplyNode mn mx unbounded greedy child) =
     (case f mn mx unbounded of (mn', mx', unbounded') \<Rightarrow>
        Some (MultiplyNode mn' mx' unbounded' greedy child))"
| "set_min_max f n = None"

text \<open>
  \<open>currentnode = dynamic_cast<MultiplyNode*>(...)\<close>, \<open>assert(currentnode)\<close>, then an update
  of its counters.
\<close>

definition update_multiply ::
  "(nat \<Rightarrow> nat \<Rightarrow> bool \<Rightarrow> nat \<times> nat \<times> bool) \<Rightarrow> parser \<Rightarrow> error + parser" where
  "update_multiply f st =
     (case activenode st of
        [] \<Rightarrow> Inl undefined_behaviour
      | p # ps \<Rightarrow>
          (case slot_get (tree st) p of
             None \<Rightarrow> Inl undefined_behaviour
           | Some n \<Rightarrow>
               (case set_min_max f n of
                  None \<Rightarrow> Inl assertion_failed
                | Some n' \<Rightarrow> Inr (st\<lparr>tree := slot_set (tree st) p n'\<rparr>))))"

text \<open>A character other than \<open>}\<close>, read unescaped inside \<open>{...}\<close>.\<close>

definition multiply_member :: "parser \<Rightarrow> char \<Rightarrow> error + parser" where
  "multiply_member st c =
     (if c = CHR '','' then
        (if multiply_environment_max st then Inl (syntax_error ''syntax error'')
         else Inr (st\<lparr>multiply_environment_max := True\<rparr>))
      else if schar c \<ge> schar CHR ''0'' \<and> schar c \<le> schar CHR ''9'' then
        (let digit = nat (schar c - schar CHR ''0'') in
         if multiply_environment_max st
         then update_multiply (\<lambda>mn mx unbounded. (mn, size_t (size_t (mx * 10) + digit), unbounded))
                (st\<lparr>multiply_environment_max_str := True\<rparr>)
         else update_multiply (\<lambda>mn mx unbounded. (size_t (size_t (mn * 10) + digit), mx, unbounded)) st)
      else if c \<noteq> CHR '' '' then Inl (syntax_error ''character not allowed'')
      else Inr st)"

fun min_of :: "ASTNode \<Rightarrow> nat" where
  "min_of (MultiplyNode mn mx unbounded greedy child) = mn"
| "min_of n = 0"

fun max_of :: "ASTNode \<Rightarrow> nat" where
  "max_of (MultiplyNode mn mx unbounded greedy child) = mx"
| "max_of n = 0"

text \<open>The unescaped \<open>}\<close>.\<close>

definition close_multiply :: "parser \<Rightarrow> error + parser" where
  "close_multiply st =
     (if \<not> multiply_environment st then Inl (syntax_error ''syntax error'')
      else
        (case (if \<not> multiply_environment_max st
               then update_multiply (\<lambda>mn mx unbounded. (mn, mn, unbounded)) st
               else if multiply_environment_max_str st
               then (case update_multiply (\<lambda>mn mx unbounded. (mn, mx, unbounded)) st of
                       Inl e \<Rightarrow> Inl e
                     | Inr st' \<Rightarrow>
                         (case top_node st' of
                            None \<Rightarrow> Inl undefined_behaviour
                          | Some n \<Rightarrow>
                              if max_of n < min_of n
                              then Inl (syntax_error ''max repetitions less than min repetitions'')
                              else Inr st'))
               else update_multiply (\<lambda>mn mx unbounded. (mn, mx, True)) st) of
           Inl e \<Rightarrow> Inl e
         | Inr st' \<Rightarrow>
             Inr (st'\<lparr>multiply_environment_max := False, multiply_environment := False,
                      lazymodifier := True\<rparr>)))"

subsection \<open>Groups, quantifiers, alternation, concatenation\<close>

text \<open>
  \<open>while ((*activenode.top())->parent && !(*activenode.top())->isinstance<BracketNode>())
  activenode.pop()\<close>: the rest of the \<open>do ... while\<close> of a closing bracket, after its
  first \<open>pop\<close>. The result is \<open>None\<close> when the loop reads the top of an empty stack or a
  slot without a node.
\<close>

fun pop_to_bracket :: "ASTNode \<Rightarrow> slot list \<Rightarrow> slot list option" where
  "pop_to_bracket t [] = None"
| "pop_to_bracket t (p # ps) =
     (case slot_get t p of
        None \<Rightarrow> None
      | Some n \<Rightarrow> if p \<noteq> [] \<and> \<not> is_Bracket n then pop_to_bracket t ps else Some (p # ps))"

text \<open>The unescaped \<open>)\<close> or \<open>>\<close>.\<close>

definition close_bracket :: "parser \<Rightarrow> char \<Rightarrow> error + parser" where
  "close_bracket st c =
     (if balanced_brackets st - 1 < 0 then Inl (unbalanced_brackets ''unbalanced brackets'')
      else if \<not> length (activenode st) \<ge> 2 then Inl assertion_failed
      else
        (case pop_to_bracket (tree st) (tl (activenode st)) of
           None \<Rightarrow> Inl undefined_behaviour
         | Some [] \<Rightarrow> Inl undefined_behaviour
         | Some (p # ps) \<Rightarrow>
             (case slot_get (tree st) p of
                Some (BracketNode capture child) \<Rightarrow>
                  if (capture \<and> c = CHR '')'') \<or> (\<not> capture \<and> c = CHR ''>'')
                  then Inl (unbalanced_brackets ''unbalanced capturing/not capturing groups'')
                  else Inr (st\<lparr>tree := (if \<not> capture then slot_set (tree st) p child else tree st),
                               activenode := p # ps,
                               balanced_brackets := balanced_brackets st - 1,
                               lazymodifier := False\<rparr>)
              | _ \<Rightarrow> Inl undefined_behaviour)))"

text \<open>The \<open>?\<close> that follows a quantifier: \<open>greedy = false\<close> on the node in the top slot.\<close>

fun make_lazy :: "ASTNode \<Rightarrow> ASTNode" where
  "make_lazy (KleeneStarNode greedy child) = KleeneStarNode False child"
| "make_lazy (OneOrMoreNode greedy child) = OneOrMoreNode False child"
| "make_lazy (OneOrNoneNode greedy child) = OneOrNoneNode False child"
| "make_lazy (MultiplyNode mn mx unbounded greedy child) = MultiplyNode mn mx unbounded False child"
| "make_lazy n = n"

text \<open>
  The loop of \<open>|\<close>: pop while the top node has a parent, is no disjunction and its parent
  is no bracket.
\<close>

fun pop_to_disjunction :: "ASTNode \<Rightarrow> slot list \<Rightarrow> slot list option" where
  "pop_to_disjunction t [] = None"
| "pop_to_disjunction t (p # ps) =
     (case slot_get t p of
        None \<Rightarrow> None
      | Some n \<Rightarrow>
          (case parent t p of
             None \<Rightarrow> Some (p # ps)
           | Some up \<Rightarrow>
               if \<not> is_Disjunction n \<and> \<not> is_Bracket up then pop_to_disjunction t ps
               else Some (p # ps)))"

text \<open>The unescaped \<open>|\<close>.\<close>

definition alternation :: "parser \<Rightarrow> error + parser" where
  "alternation st =
     (case pop_to_disjunction (tree st) (activenode st) of
        None \<Rightarrow> Inl undefined_behaviour
      | Some [] \<Rightarrow> Inl undefined_behaviour
      | Some (p # ps) \<Rightarrow>
          (case slot_get (tree st) p of
             None \<Rightarrow> Inl undefined_behaviour
           | Some (DisjunctionNode childs) \<Rightarrow>
               Inr (st\<lparr>tree := slot_set (tree st) p (DisjunctionNode (childs @ [Leaf EpsilonMatcher])),
                       activenode := (p @ [length childs]) # p # ps,
                       lazymodifier := False\<rparr>)
           | Some n \<Rightarrow>
               Inr (st\<lparr>tree := slot_set (tree st) p (DisjunctionNode [n, Leaf EpsilonMatcher]),
                       activenode := (p @ [1]) # p # ps,
                       lazymodifier := False\<rparr>)))"

text \<open>
  The matcher of the character to concatenate (the lambda \<open>currmatcher\<close>), with the
  bracket count and the class buffer it leaves behind.
\<close>

definition currmatcher :: "parser \<Rightarrow> char \<Rightarrow> error + (ASTNode \<times> parser)" where
  "currmatcher st c =
     (if \<not> escaped st \<and> (c = CHR ''('' \<or> c = CHR ''<'') then
        Inr (BracketNode (c = CHR ''<'') (Leaf EpsilonMatcher),
             st\<lparr>balanced_brackets := balanced_brackets st + 1\<rparr>)
      else if c = CHR '']'' \<and> \<not> escaped st then
        (case objbuff st of
           None \<Rightarrow> Inl assertion_failed
         | Some k \<Rightarrow>
             let k' = normalize k in
             if empty k' then Inl (syntax_error ''empty character class'')
             else if singlec k' then Inr (Leaf (CharacterMatcher (character k')), st\<lparr>objbuff := Some k'\<rparr>)
             else Inr (Leaf (ClassMatcher k'), st\<lparr>objbuff := None\<rparr>))
      else if c = CHR ''.'' \<and> \<not> escaped st then Inr (Leaf UniversalMatcher, st)
      else Inr (Leaf (CharacterMatcher c), st))"

text \<open>The last branch of the scan: concatenate \<open>currmatcher\<close> at the active slot.\<close>

definition concatenate :: "parser \<Rightarrow> char \<Rightarrow> error + parser" where
  "concatenate st0 c =
     (case currmatcher st0 c of
        Inl e \<Rightarrow> Inl e
      | Inr (new, st) \<Rightarrow>
          (case activenode st of
             [] \<Rightarrow> Inl undefined_behaviour
           | p0 # ps0 \<Rightarrow>
               (case slot_get (tree st) p0 of
                  None \<Rightarrow> Inl undefined_behaviour
                | Some n0 \<Rightarrow>
                    (case (if (case parent (tree st) p0 of Some up \<Rightarrow> is_Concatenation up | None \<Rightarrow> False)
                           then ps0 else p0 # ps0) of
                       [] \<Rightarrow> Inl undefined_behaviour
                     | p # ps \<Rightarrow>
                         (case slot_get (tree st) p of
                            None \<Rightarrow> Inl undefined_behaviour
                          | Some n \<Rightarrow>
                              let (t', stack) =
                                    (case n of
                                       Leaf EpsilonMatcher \<Rightarrow> (slot_set (tree st) p new, p # ps)
                                     | ConcatenationNode childs \<Rightarrow>
                                         (slot_set (tree st) p (ConcatenationNode (childs @ [new])),
                                          (p @ [length childs]) # p # ps)
                                     | _ \<Rightarrow>
                                         (slot_set (tree st) p (ConcatenationNode [n, new]),
                                          (p @ [1]) # p # ps));
                                  stack' = (if is_Bracket new then (hd stack @ [0]) # stack else stack)
                              in Inr (st\<lparr>tree := t', activenode := stack', lazymodifier := False\<rparr>))))))"

subsection \<open>One character of the scan\<close>

text \<open>The normal environment: the part of the loop body after the two special environments.\<close>

definition scan_normal :: "parser \<Rightarrow> char \<Rightarrow> error + parser" where
  "scan_normal st c =
     (if character_class_environment st \<or> multiply_environment st then Inl assertion_failed
      else
        (case (if \<not> escaped st \<and> (c = CHR '')'' \<or> c = CHR ''>'') then close_bracket st c
               else if c = CHR ''*'' \<and> \<not> escaped st then
                 (case wrap_top (KleeneStarNode True) st of
                    Inl e \<Rightarrow> Inl e | Inr st' \<Rightarrow> Inr (st'\<lparr>lazymodifier := True\<rparr>))
               else if c = CHR ''+'' \<and> \<not> escaped st then
                 (case wrap_top (OneOrMoreNode True) st of
                    Inl e \<Rightarrow> Inl e | Inr st' \<Rightarrow> Inr (st'\<lparr>lazymodifier := True\<rparr>))
               else if c = CHR ''?'' \<and> \<not> escaped st \<and> \<not> lazymodifier st then
                 (case wrap_top (OneOrNoneNode True) st of
                    Inl e \<Rightarrow> Inl e | Inr st' \<Rightarrow> Inr (st'\<lparr>lazymodifier := True\<rparr>))
               else if c = CHR ''?'' \<and> lazymodifier st then
                 (if escaped st then Inl assertion_failed
                  else (case wrap_top make_lazy st of
                          Inl e \<Rightarrow> Inl e | Inr st' \<Rightarrow> Inr (st'\<lparr>lazymodifier := False\<rparr>)))
               else if c = CHR ''|'' \<and> \<not> escaped st then alternation st
               else concatenate st c) of
           Inl e \<Rightarrow> Inl e
         | Inr st' \<Rightarrow> Inr (st'\<lparr>escaped := False\<rparr>)))"

text \<open>The unescaped \<open>{\<close> and \<open>}\<close>, after the test of the repetition environment.\<close>

definition scan_braces :: "parser \<Rightarrow> char \<Rightarrow> error + parser" where
  "scan_braces st c =
     (if c = CHR ''{'' \<and> \<not> escaped st then
        (case wrap_top (MultiplyNode 0 0 False True)
                (st\<lparr>multiply_environment := True, multiply_environment_max := False,
                    multiply_environment_max_str := False\<rparr>) of
           Inl e \<Rightarrow> Inl e
         | Inr st' \<Rightarrow> Inr (st'\<lparr>lazymodifier := False\<rparr>))
      else if c = CHR ''}'' \<and> \<not> escaped st then close_multiply st
      else scan_normal st c)"

definition scan_multiply :: "parser \<Rightarrow> char \<Rightarrow> error + parser" where
  "scan_multiply st c =
     (if multiply_environment st then
        (if character_class_environment st \<or> lazymodifier st then Inl assertion_failed
         else if escaped st then Inl (syntax_error ''syntax error'')
         else if c \<noteq> CHR ''}'' then multiply_member st c
         else scan_braces st c)
      else scan_braces st c)"

text \<open>The unescaped \<open>[\<close> and \<open>]\<close>, after the test of the class environment.\<close>

definition scan_class_brackets :: "parser \<Rightarrow> char \<Rightarrow> error + parser" where
  "scan_class_brackets st c =
     (if c = CHR ''['' \<and> \<not> escaped st then
        Inr (st\<lparr>character_class_environment := True,
                character_class_environment_interval := False,
                objbuff := Some \<lparr>invert = False, intervals = []\<rparr>,
                lazymodifier := False\<rparr>)
      else if c = CHR '']'' \<and> \<not> escaped st then
        (if \<not> character_class_environment st \<or> character_class_environment_interval st
         then Inl (syntax_error ''syntax error'')
         else scan_multiply (st\<lparr>character_class_environment := False\<rparr>) c)
      else scan_multiply st c)"

text \<open>The body of \<open>for (auto&&c: regex)\<close>.\<close>

definition scan :: "parser \<Rightarrow> char \<Rightarrow> error + parser" where
  "scan st c =
     (if c = CHR 0x5C \<and> \<not> escaped st then Inr (st\<lparr>lazymodifier := False, escaped := True\<rparr>)
      else if character_class_environment st then
        (if multiply_environment st \<or> lazymodifier st then Inl assertion_failed
         else if c = CHR ''['' \<and> \<not> escaped st then Inl (syntax_error ''syntax error'')
         else if \<not> (c = CHR '']'' \<and> \<not> escaped st) then class_member st c
         else scan_class_brackets st c)
      else scan_class_brackets st c)"

fun scan_all :: "parser \<Rightarrow> string \<Rightarrow> error + parser" where
  "scan_all st [] = Inr st"
| "scan_all st (c # cs) = (case scan st c of Inl e \<Rightarrow> Inl e | Inr st' \<Rightarrow> scan_all st' cs)"

text \<open>
  The anchors, read before the scan: the first character when it is \<open>^\<close>, the last one
  when it is \<open>$\<close>, whatever precedes it.
\<close>

definition anchors :: "string \<Rightarrow> bool \<times> bool \<times> string" where
  "anchors regex =
     (if length regex > 0 then
        (let anchorbegin = (regex ! 0 = CHR ''^'');
             anchorend = (regex ! (length regex - 1) = CHR ''$'');
             regex1 = (if anchorbegin then drop 1 regex else regex);
             regex2 = (if anchorend then take (length regex1 - 1) regex1 else regex1)
         in (anchorbegin, anchorend, regex2))
      else (False, False, regex))"

text \<open>\<open>buildAST\<close> up to the call of the optimizer.\<close>

definition parse :: "string \<Rightarrow> error + AST" where
  "parse regex =
     (case anchors regex of (anchorbegin, anchorend, regex') \<Rightarrow>
        (case scan_all initial_parser regex' of
           Inl e \<Rightarrow> Inl e
         | Inr st \<Rightarrow>
             if balanced_brackets st \<noteq> 0 then Inl (unbalanced_brackets ''unbalanced brackets'')
             else if character_class_environment st
             then Inl (syntax_error ''character class environment not closed'')
             else if multiply_environment st
             then Inl (syntax_error ''multiply environment not closed'')
             else Inr \<lparr>root = tree st, anchorBegin = anchorbegin, anchorEnd = anchorend\<rparr>))"

section \<open>The optimizer of the tree\<close>

text \<open>
  \<open>_merge_node_down<T>\<close>: the loop runs from the last child to the first and replaces a
  child of the node's own kind by that child's children.
\<close>

definition splice_concatenation :: "nat \<Rightarrow> ASTNode list \<Rightarrow> ASTNode list" where
  "splice_concatenation i childs =
     (case childs ! i of
        ConcatenationNode arg \<Rightarrow> take i childs @ arg @ drop (Suc i) childs
      | _ \<Rightarrow> childs)"

definition splice_disjunction :: "nat \<Rightarrow> ASTNode list \<Rightarrow> ASTNode list" where
  "splice_disjunction i childs =
     (case childs ! i of
        DisjunctionNode arg \<Rightarrow> take i childs @ arg @ drop (Suc i) childs
      | _ \<Rightarrow> childs)"

fun merge_node_down_Concatenation :: "ASTNode \<Rightarrow> ASTNode" where
  "merge_node_down_Concatenation (ConcatenationNode childs) =
     ConcatenationNode (fold splice_concatenation (rev [0..<length childs]) childs)"
| "merge_node_down_Concatenation n = n"

fun merge_node_down_Disjunction :: "ASTNode \<Rightarrow> ASTNode" where
  "merge_node_down_Disjunction (DisjunctionNode childs) =
     DisjunctionNode (fold splice_disjunction (rev [0..<length childs]) childs)"
| "merge_node_down_Disjunction n = n"

text \<open>\<open>_merge_multiply\<close>.\<close>

fun merge_multiply :: "ASTNode \<Rightarrow> ASTNode" where
  "merge_multiply (MultiplyNode mn mx unbounded greedy child) =
     (let (mn1, mx1, child1) =
            (if exact mn mx unbounded then
               (case child of
                  MultiplyNode mn2 mx2 unbounded2 greedy2 child2 \<Rightarrow>
                    if exact mn2 mx2 unbounded2
                    then (size_t (mn * mn2), size_t (mn * mn2), child2)
                    else (mn, mx, child)
                | _ \<Rightarrow> (mn, mx, child))
             else (mn, mx, child))
      in if unbounded \<and> (mn1 = 0 \<or> mn1 = 1) then
           (if mn1 = 0 then KleeneStarNode greedy child1 else OneOrMoreNode greedy child1)
         else if exact mn1 mx1 unbounded \<and> mn1 = 0 then Leaf EpsilonMatcher
         else MultiplyNode mn1 mx1 unbounded greedy child1)"
| "merge_multiply n = n"

text \<open>The three node types that instantiate \<open>_merge_oneor_hh<T1, T2>\<close>.\<close>

datatype quantifier = KleeneStar | OneOrMore | OneOrNone

text \<open>\<open>dynamic_cast<T*>\<close>: the \<open>greedy\<close> flag and the child when the node is a \<open>T\<close>.\<close>

fun cast :: "quantifier \<Rightarrow> ASTNode \<Rightarrow> (bool \<times> ASTNode) option" where
  "cast KleeneStar (KleeneStarNode greedy child) = Some (greedy, child)"
| "cast OneOrMore (OneOrMoreNode greedy child) = Some (greedy, child)"
| "cast OneOrNone (OneOrNoneNode greedy child) = Some (greedy, child)"
| "cast T n = None"

fun make :: "quantifier \<Rightarrow> bool \<Rightarrow> ASTNode \<Rightarrow> ASTNode" where
  "make KleeneStar greedy child = KleeneStarNode greedy child"
| "make OneOrMore greedy child = OneOrMoreNode greedy child"
| "make OneOrNone greedy child = OneOrNoneNode greedy child"

text \<open>
  The rewriting of \<open>_merge_oneor_hh<T1, T2>\<close>, before it tries again: the new root when
  \<open>mergeperformed\<close>, nothing otherwise. \<open>g1\<close> is the flag of \<open>element1\<close> (the outer node),
  \<open>g2\<close> the flag of \<open>element2\<close> (its child).
\<close>

definition merge_performed :: "quantifier \<Rightarrow> quantifier \<Rightarrow> ASTNode \<Rightarrow> ASTNode option" where
  "merge_performed T1 T2 n =
     (case cast T1 n of
        None \<Rightarrow> None
      | Some (g1, element2) \<Rightarrow>
          (case cast T2 element2 of
             None \<Rightarrow> None
           | Some (g2, child) \<Rightarrow>
               if T1 = T2 then
                 Some (make T1 (if T1 = OneOrMore then g1 \<or> g2 else g1 \<and> g2) child)
               else if T1 = KleeneStar then
                 Some (KleeneStarNode (if T2 \<noteq> OneOrMore then g1 \<and> g2 else g1) child)
               else if T2 = KleeneStar then
                 Some (KleeneStarNode (if T1 \<noteq> OneOrMore then g1 \<and> g2 else g2) child)
               else if (T1 = OneOrNone \<and> T2 = OneOrMore \<and> (\<not> g1 \<or> g2))
                     \<or> (T1 = OneOrMore \<and> T2 = OneOrNone \<and> (g1 \<or> \<not> g2))
               then Some (KleeneStarNode (g1 \<and> g2) child)
               else None))"

text \<open>The order in which \<open>_merge_oneor_h\<close> runs its nine instances.\<close>

definition instances :: "(quantifier \<times> quantifier) list" where
  "instances = [(KleeneStar, KleeneStar), (KleeneStar, OneOrMore), (KleeneStar, OneOrNone),
                (OneOrMore, KleeneStar), (OneOrMore, OneOrMore), (OneOrMore, OneOrNone),
                (OneOrNone, KleeneStar), (OneOrNone, OneOrMore), (OneOrNone, OneOrNone)]"

function merge_oneor_hh :: "quantifier \<Rightarrow> quantifier \<Rightarrow> ASTNode \<Rightarrow> ASTNode"
  and merge_oneor_h :: "(quantifier \<times> quantifier) list \<Rightarrow> ASTNode \<Rightarrow> ASTNode" where
  "merge_oneor_hh T1 T2 n =
     (case merge_performed T1 T2 n of
        None \<Rightarrow> n
      | Some n' \<Rightarrow> merge_oneor_h instances n')"
| "merge_oneor_h [] n = n"
| "merge_oneor_h (T # Ts) n = merge_oneor_h Ts (merge_oneor_hh (fst T) (snd T) n)"
  by pat_completeness auto

text \<open>
  \<open>optimizeAST\<close>: the children first, then the four rewritings of the node itself.
\<close>

definition optimize_node :: "ASTNode \<Rightarrow> ASTNode" where
  "optimize_node n =
     merge_oneor_h instances
       (merge_multiply (merge_node_down_Disjunction (merge_node_down_Concatenation n)))"

fun optimizeAST :: "ASTNode \<Rightarrow> ASTNode" where
  "optimizeAST (Leaf m) = optimize_node (Leaf m)"
| "optimizeAST (BracketNode capture child) = optimize_node (BracketNode capture (optimizeAST child))"
| "optimizeAST (KleeneStarNode greedy child) = optimize_node (KleeneStarNode greedy (optimizeAST child))"
| "optimizeAST (OneOrMoreNode greedy child) = optimize_node (OneOrMoreNode greedy (optimizeAST child))"
| "optimizeAST (OneOrNoneNode greedy child) = optimize_node (OneOrNoneNode greedy (optimizeAST child))"
| "optimizeAST (MultiplyNode mn mx unbounded greedy child) =
     optimize_node (MultiplyNode mn mx unbounded greedy (optimizeAST child))"
| "optimizeAST (ConcatenationNode childs) = optimize_node (ConcatenationNode (map optimizeAST childs))"
| "optimizeAST (DisjunctionNode childs) = optimize_node (DisjunctionNode (map optimizeAST childs))"

definition buildAST :: "string \<Rightarrow> bool \<Rightarrow> error + AST" where
  "buildAST regex optimize =
     (case parse regex of
        Inl e \<Rightarrow> Inl e
      | Inr ast \<Rightarrow> Inr (if optimize then ast\<lparr>root := optimizeAST (root ast)\<rparr> else ast))"

section \<open>The automaton\<close>

text \<open>
  A transition is \<open>(matcher, state, info)\<close>. The \<open>const Matcher*\<close> is modelled by the
  position of the matcher in \<open>NFA::matchers\<close> (every \<open>addTransition\<close> appends one, so it
  identifies the pointer) together with the matcher it points to, which never changes.
  The shared pointer \<open>info\<close> is null (\<open>None\<close>) or holds the two vectors of groups; it is
  compared by value here, which agrees with the comparison of pointers on transitions
  that already differ in their matcher.
\<close>

record transition_info_t =
  begingroups :: "nat list"
  endgroups :: "nat list"

type_synonym matcher_ptr = "nat \<times> Matcher"

type_synonym transition_t = "matcher_ptr \<times> nat \<times> transition_info_t option"

text \<open>
  \<open>rtransitions\<close> is a \<open>std::set\<close>: a list without repetition here. The program reads its
  order (the order of the addresses) only through \<open>begin()\<close> of a set of one element.
\<close>

record NFAState =
  initialState :: bool
  finalState :: bool
  transitions :: "transition_t list"
  rtransitions :: "transition_t list"

record NFA =
  states :: "NFAState list"
  matchers :: "Matcher list"
  nGroups :: nat

definition empty_NFA :: NFA where
  "empty_NFA = \<lparr>states = [], matchers = [], nGroups = 1\<rparr>"

definition newState :: "NFA \<Rightarrow> NFA \<times> nat" where
  "newState nfa =
     (nfa\<lparr>states := states nfa @ [\<lparr>initialState = False, finalState = False,
                                     transitions = [], rtransitions = []\<rparr>]\<rparr>,
      length (states nfa))"

definition newGroup :: "NFA \<Rightarrow> NFA \<times> nat" where
  "newGroup nfa = (nfa\<lparr>nGroups := nGroups nfa + 1\<rparr>, nGroups nfa)"

text \<open>Running on after a step that may throw.\<close>

definition and_then :: "error + 'a \<Rightarrow> ('a \<Rightarrow> error + 'b) \<Rightarrow> error + 'b" where
  "and_then r f = (case r of Inl e \<Rightarrow> Inl e | Inr x \<Rightarrow> f x)"

subsection \<open>\<open>NFA::check\<close>\<close>

definition matcher_found :: "NFA \<Rightarrow> matcher_ptr \<Rightarrow> bool" where
  "matcher_found nfa m = (fst m < length (matchers nfa) \<and> matchers nfa ! fst m = snd m)"

definition info_valid :: "NFA \<Rightarrow> transition_info_t option \<Rightarrow> bool" where
  "info_valid nfa info =
     (case info of
        None \<Rightarrow> True
      | Some d \<Rightarrow> list_all (\<lambda>begingroup. begingroup < nGroups nfa) (begingroups d)
                 \<and> list_all (\<lambda>endgroup. endgroup < nGroups nfa) (endgroups d)
                 \<and> (0 < length (begingroups d) \<or> 0 < length (endgroups d)))"

text \<open>The assertions on one transition of the state \<open>i\<close>.\<close>

definition check_transition :: "NFA \<Rightarrow> nat \<Rightarrow> transition_t \<Rightarrow> bool" where
  "check_transition nfa i t =
     (case t of (matcher, endState, info) \<Rightarrow>
        endState < length (states nfa)
        \<and> matcher_found nfa matcher
        \<and> (matcher, i, info) \<in> set (rtransitions (states nfa ! endState))
        \<and> info_valid nfa info)"

text \<open>The assertions on one reverse transition of the state \<open>i\<close>.\<close>

definition check_rtransition :: "NFA \<Rightarrow> nat \<Rightarrow> transition_t \<Rightarrow> bool" where
  "check_rtransition nfa i r =
     (case r of (matcher, startState, info) \<Rightarrow>
        startState < length (states nfa)
        \<and> matcher_found nfa matcher
        \<and> count_list (transitions (states nfa ! startState)) (matcher, i, info) = 1
        \<and> info_valid nfa info)"

text \<open>\<open>check\<close> holds when no assertion of \<open>NFA::check\<close> fails.\<close>

definition check :: "NFA \<Rightarrow> bool" where
  "check nfa =
     list_all (\<lambda>i. list_all (check_transition nfa i) (transitions (states nfa ! i))
                  \<and> list_all (check_rtransition nfa i) (rtransitions (states nfa ! i)))
       [0..<length (states nfa)]"

subsection \<open>\<open>NFA::addTransition\<close>\<close>

definition addTransition ::
  "Matcher \<Rightarrow> nat \<Rightarrow> nat \<Rightarrow> nat list \<Rightarrow> nat list \<Rightarrow> NFA \<Rightarrow> error + NFA" where
  "addTransition matcher fromState toState opengroups closegroups nfa =
     (if fromState \<ge> length (states nfa) \<or> toState \<ge> length (states nfa)
      then Inl undefined_behaviour
      else
        let useinfo = (0 < length opengroups \<or> 0 < length closegroups);
            info = (if useinfo then Some \<lparr>begingroups = opengroups, endgroups = closegroups\<rparr>
                    else None);
            tmatcher = (length (matchers nfa), matcher);
            sts1 = (states nfa)[fromState :=
                      (states nfa ! fromState)\<lparr>transitions :=
                         transitions (states nfa ! fromState) @ [(tmatcher, toState, info)]\<rparr>];
            sts2 = sts1[toState :=
                      (sts1 ! toState)\<lparr>rtransitions :=
                         List.insert (tmatcher, fromState, info) (rtransitions (sts1 ! toState))\<rparr>];
            nfa' = nfa\<lparr>states := sts2, matchers := matchers nfa @ [matcher]\<rparr>
        in if check nfa' then Inr nfa' else Inl assertion_failed)"

subsection \<open>From the tree to the automaton\<close>

text \<open>A \<open>std::set<size_t>\<close> of groups: an ascending list without repetition.\<close>

definition emplace :: "nat \<Rightarrow> nat list \<Rightarrow> nat list" where
  "emplace g gs = (if g \<in> set gs then gs else insort g gs)"

text \<open>\<open>n - 1\<close> on \<open>size_t\<close>.\<close>

definition minus1 :: "nat \<Rightarrow> nat" where
  "minus1 n = (if n = 0 then 2 ^ 64 - 1 else n - 1)"

text \<open>
  The two \<epsilon>-transitions that leave a repeated fragment, \<open>first\<close> before \<open>second\<close> when
  \<open>greedy\<close> and after it otherwise.
\<close>

definition ordered :: "bool \<Rightarrow> (NFA \<Rightarrow> error + NFA) \<Rightarrow> (NFA \<Rightarrow> error + NFA) \<Rightarrow> NFA \<Rightarrow> error + NFA" where
  "ordered greedy first second nfa =
     (if greedy then and_then (first nfa) second else and_then (second nfa) first)"

function ASTtoNFA_rec ::
  "NFA \<Rightarrow> nat \<Rightarrow> nat \<Rightarrow> ASTNode \<Rightarrow> nat list \<Rightarrow> nat list \<Rightarrow> error + NFA" where
  "ASTtoNFA_rec nfa begin end (Leaf chr) opengroups closegroups =
     addTransition chr begin end opengroups closegroups nfa"
| "ASTtoNFA_rec nfa begin end (ConcatenationNode childs) opengroups closegroups =
     and_then
       (fold (\<lambda>i r. and_then r (\<lambda>(nfa0, newbegin).
                let (nfa1, newend) = (if i \<noteq> minus1 (length childs) then newState nfa0 else (nfa0, end));
                    newogroups = (if i = 0 then opengroups else []);
                    newcgroups = (if i = minus1 (length childs) then closegroups else [])
                in and_then (ASTtoNFA_rec nfa1 newbegin newend (childs ! i) newogroups newcgroups)
                     (\<lambda>nfa2. Inr (nfa2, newend))))
          [0..<length childs] (Inr (nfa, begin)))
       (\<lambda>(nfa', newbegin). Inr nfa')"
| "ASTtoNFA_rec nfa begin end (DisjunctionNode childs) opengroups closegroups =
     fold (\<lambda>i r. and_then r (\<lambda>nfa0. ASTtoNFA_rec nfa0 begin end (childs ! i) opengroups closegroups))
       [0..<length childs] (Inr nfa)"
| "ASTtoNFA_rec nfa begin end (KleeneStarNode greedy child) opengroups closegroups =
     (if accept_epsilon child then
        (let (nfa1, before_state) = newState nfa; (nfa2, after_state) = newState nfa1 in
         and_then (ordered greedy
                     (addTransition EpsilonMatcher begin before_state opengroups [])
                     (addTransition EpsilonMatcher begin end opengroups closegroups) nfa2)
           (\<lambda>nfa3. and_then (ASTtoNFA_rec nfa3 before_state after_state child [] [])
              (ordered greedy
                 (addTransition EpsilonMatcher after_state before_state [] [])
                 (addTransition EpsilonMatcher after_state end [] closegroups))))
      else
        (let (nfa1, mid) = newState nfa in
         and_then (addTransition EpsilonMatcher begin mid opengroups [] nfa1)
           (\<lambda>nfa2. if greedy
                    then and_then (ASTtoNFA_rec nfa2 mid mid child [] [])
                           (addTransition EpsilonMatcher mid end [] closegroups)
                    else and_then (addTransition EpsilonMatcher mid end [] closegroups nfa2)
                           (\<lambda>nfa3. ASTtoNFA_rec nfa3 mid mid child [] []))))"
| "ASTtoNFA_rec nfa begin end (OneOrMoreNode greedy child) opengroups closegroups =
     (let (nfa1, before_state) = newState nfa; (nfa2, after_state) = newState nfa1 in
      and_then (addTransition EpsilonMatcher begin before_state opengroups [] nfa2)
        (\<lambda>nfa3. and_then (ASTtoNFA_rec nfa3 before_state after_state child [] [])
           (ordered greedy
              (addTransition EpsilonMatcher after_state before_state [] [])
              (addTransition EpsilonMatcher after_state end [] closegroups))))"
| "ASTtoNFA_rec nfa begin end (OneOrNoneNode greedy child) opengroups closegroups =
     (if greedy
      then and_then (ASTtoNFA_rec nfa begin end child opengroups closegroups)
             (addTransition EpsilonMatcher begin end opengroups closegroups)
      else and_then (addTransition EpsilonMatcher begin end opengroups closegroups nfa)
             (\<lambda>nfa1. ASTtoNFA_rec nfa1 begin end child opengroups closegroups))"
| "ASTtoNFA_rec nfa begin end (MultiplyNode mn mx unbounded greedy child) opengroups closegroups =
     and_then
       (fold (\<lambda>i r. and_then r (\<lambda>(nfa0, newbegin).
                let (nfa1, newend) = newState nfa0;
                    newogroups = (if i = 0 then opengroups else [])
                in and_then (ASTtoNFA_rec nfa1 newbegin newend child newogroups [])
                     (\<lambda>nfa2. Inr (nfa2, newend))))
          (if mn \<noteq> 0 then [0..<mn - 1] else []) (Inr (nfa, begin)))
       (\<lambda>(nfa0, newbegin).
          let i = (if mn \<noteq> 0 then mn - 1 else 0) in
          if exact mn mx unbounded then
            (if mn \<noteq> 0
             then ASTtoNFA_rec nfa0 newbegin end child (if i = 0 then opengroups else []) closegroups
             else addTransition EpsilonMatcher begin end opengroups closegroups nfa0)
          else if unbounded then
            (if mn = 0 then
               (let (nfa1, mid) = newState nfa0 in
                and_then (addTransition EpsilonMatcher begin mid opengroups [] nfa1)
                  (\<lambda>nfa2. if greedy
                           then and_then (ASTtoNFA_rec nfa2 mid mid child [] [])
                                  (addTransition EpsilonMatcher mid end [] closegroups)
                           else and_then (addTransition EpsilonMatcher mid end [] closegroups nfa2)
                                  (\<lambda>nfa3. ASTtoNFA_rec nfa3 mid mid child [] [])))
             else if mn = 1 then
               (let (nfa1, before_state) = newState nfa0; (nfa2, after_state) = newState nfa1 in
                and_then (addTransition EpsilonMatcher begin before_state opengroups [] nfa2)
                  (\<lambda>nfa3. and_then (ASTtoNFA_rec nfa3 before_state after_state child [] [])
                     (ordered greedy
                        (addTransition EpsilonMatcher after_state before_state [] [])
                        (addTransition EpsilonMatcher after_state end [] closegroups))))
             else
               (let (nfa1, newend) = newState nfa0 in
                if i = 0 then Inl assertion_failed
                else and_then (ASTtoNFA_rec nfa1 newbegin newend child [] [])
                       (ordered greedy
                          (addTransition EpsilonMatcher newend newbegin [] [])
                          (addTransition EpsilonMatcher newend end [] closegroups))))
          else
            and_then
              (fold (\<lambda>k r. and_then r (\<lambda>(nfa1, newbegin1).
                       let (nfa2, newend) = newState nfa1;
                           newogroups = (if k = 0 then opengroups else []);
                           shortcut = (\<lambda>n. if k \<ge> mn
                                            then addTransition EpsilonMatcher newbegin1 end
                                                   newogroups closegroups n
                                            else Inr n)
                       in and_then
                            (if greedy
                             then and_then (ASTtoNFA_rec nfa2 newbegin1 newend child newogroups [])
                                    shortcut
                             else and_then (shortcut nfa2)
                                    (\<lambda>nfa3. ASTtoNFA_rec nfa3 newbegin1 newend child newogroups []))
                            (\<lambda>nfa4. Inr (nfa4, newend))))
                 [i..<minus1 mx] (Inr (nfa0, newbegin)))
              (\<lambda>(nfa1, newbegin1).
                 let newogroups = (if max i (minus1 mx) = 0 then opengroups else []) in
                 if greedy
                 then and_then (ASTtoNFA_rec nfa1 newbegin1 end child newogroups closegroups)
                        (addTransition EpsilonMatcher newbegin1 end newogroups closegroups)
                 else and_then (addTransition EpsilonMatcher newbegin1 end newogroups closegroups nfa1)
                        (\<lambda>nfa2. ASTtoNFA_rec nfa2 newbegin1 end child newogroups closegroups)))"
| "ASTtoNFA_rec nfa begin end (BracketNode capture child) opengroups closegroups =
     (if capture
      then (let (nfa1, newGroupid) = newGroup nfa in
            ASTtoNFA_rec nfa1 begin end child (emplace newGroupid opengroups)
              (emplace newGroupid closegroups))
      else ASTtoNFA_rec nfa begin end child opengroups closegroups)"
  by pat_completeness auto

lemma size_nth_childs: "i < length childs \<Longrightarrow> size (childs ! i) < Suc (size_list size childs)"
  by (metis less_Suc_eq_le nth_mem size_list_estimation' order_refl)

termination ASTtoNFA_rec
  by (relation "measure (\<lambda>(nfa, b, e, t, og, cg). size t)") (auto simp: size_nth_childs)

subsection \<open>\<open>NFA::optimize\<close>\<close>

text \<open>
  The new index of the state \<open>k\<close> once the state \<open>i\<close> is erased: what pointed to \<open>i\<close>
  points to \<open>j\<close> (already shifted).
\<close>

definition remap :: "nat \<Rightarrow> nat \<Rightarrow> nat \<Rightarrow> nat" where
  "remap i j k = (if k > i then k - 1 else if k = i then j else k)"

definition remap_transition :: "nat \<Rightarrow> nat \<Rightarrow> transition_t \<Rightarrow> transition_t" where
  "remap_transition i j t = (case t of (matcher, k, info) \<Rightarrow> (matcher, remap i j k, info))"

text \<open>
  The lambda \<open>remove_node(i, j)\<close>. With \<open>i = j\<close> the state is removed for good and the
  loop asserts that no transition and no reverse transition of another state names it.
\<close>

definition remove_node :: "NFA \<Rightarrow> nat \<Rightarrow> nat \<Rightarrow> error + NFA" where
  "remove_node nfa i j =
     (if i \<ge> length (states nfa) then Inl undefined_behaviour
      else
        let sts = take i (states nfa) @ drop (Suc i) (states nfa);
            unique = (i = j);
            j' = (if j > i then j - 1 else j)
        in if unique \<and> list_ex (\<lambda>node. list_ex (\<lambda>t. fst (snd t) = i) (transitions node)
                                        \<or> list_ex (\<lambda>r. fst (snd r) = i) (rtransitions node)) sts
           then Inl assertion_failed
           else Inr (nfa\<lparr>states :=
                        map (\<lambda>node. node\<lparr>transitions := map (remap_transition i j') (transitions node),
                                         rtransitions := remdups (map (remap_transition i j')
                                                                     (rtransitions node))\<rparr>) sts\<rparr>))"

text \<open>\<open>std::find\<close> and \<open>std::distance\<close>: the length of the list when the element is absent.\<close>

fun position :: "'a \<Rightarrow> 'a list \<Rightarrow> nat" where
  "position x [] = 0"
| "position x (y # ys) = (if x = y then 0 else Suc (position x ys))"

text \<open>
  The body of the first loop, at the state \<open>i\<close>: a state that nothing reaches is
  removed, a state reached by one \<epsilon>-transition without groups is merged into the state
  it comes from.
\<close>

definition merge_into_predecessor :: "nat \<Rightarrow> NFA \<Rightarrow> error + NFA" where
  "merge_into_predecessor i nfa =
     (if i \<ge> length (states nfa) then Inl undefined_behaviour
      else
        let state = states nfa ! i in
        if length (rtransitions state) = 0 \<and> \<not> initialState state then remove_node nfa i i
        else if length (rtransitions state) = 1 \<and> \<not> initialState state then
          (case hd (rtransitions state) of (matcher, j, info) \<Rightarrow>
             if snd matcher = EpsilonMatcher \<and> info = None then
               (if j \<ge> length (states nfa) then Inl undefined_behaviour
                else
                  let trans = transitions (states nfa ! j);
                      insert_index = position (matcher, i, info) trans
                  in if \<not> insert_index < length trans then Inl assertion_failed
                     else if j = i then Inl undefined_behaviour
                     else remove_node
                            (nfa\<lparr>states := (states nfa)[j :=
                                   (states nfa ! j)\<lparr>transitions :=
                                      take insert_index trans @ transitions state
                                      @ drop (Suc insert_index) trans\<rparr>]\<rparr>) i j)
             else Inr nfa)
        else Inr nfa)"

text \<open>
  The body of the second loop: a state without transitions is removed, a state left by
  one \<epsilon>-transition without groups is merged into the state it goes to.
\<close>

definition merge_into_successor :: "nat \<Rightarrow> NFA \<Rightarrow> error + NFA" where
  "merge_into_successor i nfa =
     (if i \<ge> length (states nfa) then Inl undefined_behaviour
      else
        let state = states nfa ! i in
        if length (transitions state) = 0 \<and> \<not> finalState state then remove_node nfa i i
        else if length (transitions state) = 1 \<and> \<not> finalState state then
          (case hd (transitions state) of (matcher, j, info) \<Rightarrow>
             if snd matcher = EpsilonMatcher \<and> info = None then
               (if j \<ge> length (states nfa) then Inl undefined_behaviour
                else if (matcher, i, info) \<notin> set (rtransitions (states nfa ! j))
                then Inl assertion_failed
                else if j = i then Inl undefined_behaviour
                else remove_node
                       (nfa\<lparr>states := (states nfa)[j :=
                              (states nfa ! j)\<lparr>rtransitions :=
                                 fold List.insert (rtransitions state)
                                   (removeAll (matcher, i, info) (rtransitions (states nfa ! j)))\<rparr>]\<rparr>)
                       i j)
             else Inr nfa)
        else Inr nfa)"

text \<open>\<open>for (size_t i = states.size(); i-- > 0;)\<close> over a body that may abort.\<close>

definition sweep :: "(nat \<Rightarrow> NFA \<Rightarrow> error + NFA) \<Rightarrow> NFA \<Rightarrow> error + NFA" where
  "sweep body nfa = fold (\<lambda>i r. and_then r (body i)) (rev [0..<length (states nfa)]) (Inr nfa)"

definition NFA_optimize :: "NFA \<Rightarrow> error + NFA" where
  "NFA_optimize nfa = and_then (sweep merge_into_predecessor nfa) (sweep merge_into_successor)"

subsection \<open>\<open>ASTtoNFA\<close> and the constructor from a pattern\<close>

definition ASTtoNFA :: "AST \<Rightarrow> bool \<Rightarrow> error + NFA" where
  "ASTtoNFA ast opt =
     (let (nfa1, begin) = newState empty_NFA;
          (nfa2, end) = newState nfa1;
          nfa3 = nfa2\<lparr>states := (states nfa2)[begin := (states nfa2 ! begin)\<lparr>initialState := True\<rparr>]\<rparr>;
          nfa4 = nfa3\<lparr>states := (states nfa3)[end := (states nfa3 ! end)\<lparr>finalState := True\<rparr>]\<rparr>
      in and_then (ASTtoNFA_rec nfa4 begin end (root ast) [0] [0])
           (\<lambda>nfa5. and_then (if \<not> anchorBegin ast
                              then addTransition UniversalMatcher begin begin [] [] nfa5
                              else Inr nfa5)
              (\<lambda>nfa6. and_then (if \<not> anchorEnd ast
                                 then addTransition UniversalMatcher end end [] [] nfa6
                                 else Inr nfa6)
                 (\<lambda>nfa7. and_then (if opt then NFA_optimize nfa7 else Inr nfa7)
                    (\<lambda>nfa8. if check nfa8 then Inr nfa8 else Inl assertion_failed)))))"

text \<open>\<open>NFA(std::string_view regex, bool optimize)\<close>: the flag goes to both optimizers.\<close>

definition compile :: "string \<Rightarrow> bool \<Rightarrow> error + NFA" where
  "compile regex opt = and_then (buildAST regex opt) (\<lambda>ast. ASTtoNFA ast opt)"

section \<open>The two executors\<close>

subsection \<open>\<open>NFA::simulate\<close>\<close>

text \<open>
  A capture is a \<open>string_view\<close> into the input: \<open>None\<close> while its data pointer is null,
  else the offset of its data in the input and its size.
\<close>

type_synonym capture = "(nat \<times> nat) option"

record simulation =
  visitedStates :: "(nat \<times> nat) set"
  captures :: "capture list"

text \<open>\<open>remainingStr\<close> is the view of the input from the offset \<open>off\<close> on.\<close>

definition remaining :: "string_view \<Rightarrow> nat \<Rightarrow> string_view" where
  "remaining str off = str\<lparr>sv_chars := drop off (sv_chars str)\<rparr>"

definition begin_group :: "nat \<Rightarrow> nat \<Rightarrow> error + capture list \<Rightarrow> error + capture list" where
  "begin_group off begingroup r =
     and_then r (\<lambda>caps. if begingroup < length caps
                         then Inr (caps[begingroup := Some (off, 0)])
                         else Inl undefined_behaviour)"

text \<open>
  \<open>captures[endgroup] = {data, &remainingStr[length] - data}\<close>; with a null \<open>data\<close> the
  view keeps its null pointer.
\<close>

definition end_group :: "nat \<Rightarrow> nat \<Rightarrow> error + capture list \<Rightarrow> error + capture list" where
  "end_group stop endgroup r =
     and_then r (\<lambda>caps. if endgroup < length caps
                         then Inr (caps[endgroup := (case caps ! endgroup of
                                                       None \<Rightarrow> None
                                                     | Some (start, n) \<Rightarrow> Some (start, stop - start))])
                         else Inl undefined_behaviour)"

definition record_groups ::
  "transition_info_t option \<Rightarrow> nat \<Rightarrow> nat \<Rightarrow> capture list \<Rightarrow> error + capture list" where
  "record_groups info off n caps =
     (case info of
        None \<Rightarrow> Inr caps
      | Some d \<Rightarrow> fold (end_group (off + n)) (endgroups d)
                    (fold (begin_group off) (begingroups d) (Inr caps)))"

text \<open>
  The recursive lambda \<open>exploreTransitions\<close>, and the loop over the transitions of the
  state it has entered. The result is the boolean it returns, with the visited set and
  the captures it leaves.
\<close>

function exploreTransitions ::
    "NFA \<Rightarrow> string_view \<Rightarrow> simulation \<Rightarrow> nat \<Rightarrow> nat \<Rightarrow> error + (bool \<times> simulation)"
  and tryTransitions ::
    "NFA \<Rightarrow> string_view \<Rightarrow> simulation \<Rightarrow> nat \<Rightarrow> transition_t list \<Rightarrow> error + (bool \<times> simulation)"
  where
  "exploreTransitions nfa str st currentState off =
     (if currentState \<ge> length (states nfa) then Inl undefined_behaviour
      else if sv_empty (remaining str off) \<and> finalState (states nfa ! currentState)
      then Inr (True, st)
      else if (currentState, off) \<in> visitedStates st then Inr (False, st)
      else tryTransitions nfa str
             (st\<lparr>visitedStates := insert (currentState, off) (visitedStates st)\<rparr>) off
             (transitions (states nfa ! currentState)))"
| "tryTransitions nfa str st off [] = Inr (False, st)"
| "tryTransitions nfa str st off ((matcher, nextState, info) # rest) =
     (if match (snd matcher) (remaining str off) then
        (case record_groups info off (matcher_length (snd matcher)) (captures st) of
           Inl e \<Rightarrow> Inl e
         | Inr caps \<Rightarrow>
             (case sv_substr (remaining str off) (matcher_length (snd matcher)) of
                Inl e \<Rightarrow> Inl e
              | Inr substr \<Rightarrow>
                  (case exploreTransitions nfa str (st\<lparr>captures := caps\<rparr>) nextState
                          (off + matcher_length (snd matcher)) of
                     Inl e \<Rightarrow> Inl e
                   | Inr r \<Rightarrow>
                       if fst r then Inr r
                       else tryTransitions nfa str
                              (if info \<noteq> None then (snd r)\<lparr>captures := captures st\<rparr> else snd r)
                              off rest)))
      else tryTransitions nfa str st off rest)"
  by pat_completeness auto

text \<open>
  The pairs of a state and an offset that a search from the offset \<open>off\<close> can still
  enter, and how many of them it has not visited: the measure of the recursion.
\<close>

definition universe :: "NFA \<Rightarrow> string_view \<Rightarrow> nat \<Rightarrow> (nat \<times> nat) set" where
  "universe nfa str off = {0..<length (states nfa)} \<times> ({off..sv_size str} \<union> {off})"

definition unvisited :: "NFA \<Rightarrow> string_view \<Rightarrow> simulation \<Rightarrow> nat \<Rightarrow> nat" where
  "unvisited nfa str st off = card (universe nfa str off - visitedStates st)"

lemma finite_universe: "finite (universe nfa str off)"
  by (simp add: universe_def)

lemma unvisited_insert:
  "s < length (states nfa) \<Longrightarrow> (s, off) \<notin> visitedStates st \<Longrightarrow>
   unvisited nfa str (st\<lparr>visitedStates := insert (s, off) (visitedStates st)\<rparr>) off
     < unvisited nfa str st off"
proof -
  assume a: "s < length (states nfa)" "(s, off) \<notin> visitedStates st"
  have in_u: "(s, off) \<in> universe nfa str off - visitedStates st"
    using a by (simp add: universe_def)
  have "universe nfa str off - insert (s, off) (visitedStates st)
          = (universe nfa str off - visitedStates st) - {(s, off)}"
    by auto
  moreover have "card ((universe nfa str off - visitedStates st) - {(s, off)})
                   < card (universe nfa str off - visitedStates st)"
    using in_u finite_universe by (intro card_Diff1_less) auto
  ultimately show ?thesis by (simp add: unvisited_def)
qed

lemma universe_advance:
  "sv_substr (remaining str off) n = Inr nx \<Longrightarrow> universe nfa str (off + n) \<subseteq> universe nfa str off"
  by (auto simp: sv_substr_def remaining_def sv_size_def universe_def split: if_splits)

lemma unvisited_advance:
  "sv_substr (remaining str off) n = Inr nx \<Longrightarrow> visitedStates st \<subseteq> visitedStates st' \<Longrightarrow>
   unvisited nfa str st' (off + n) \<le> unvisited nfa str st off"
  unfolding unvisited_def
  by (intro card_mono) (use universe_advance finite_universe in blast)+

lemma unvisited_mono:
  "visitedStates st \<subseteq> visitedStates st' \<Longrightarrow> unvisited nfa str st' off \<le> unvisited nfa str st off"
  unfolding unvisited_def
  by (intro card_mono) (use finite_universe in blast)+

lemma visited_grows:
  "exploreTransitions_tryTransitions_dom (Inl (nfa, str, st, s, off)) \<Longrightarrow>
     exploreTransitions nfa str st s off = Inr r \<Longrightarrow> visitedStates st \<subseteq> visitedStates (snd r)"
  "exploreTransitions_tryTransitions_dom (Inr (nfa, str, st, off, ts)) \<Longrightarrow>
     tryTransitions nfa str st off ts = Inr r \<Longrightarrow> visitedStates st \<subseteq> visitedStates (snd r)"
proof (induction arbitrary: r and r rule: exploreTransitions_tryTransitions.pinduct)
  case (1 nfa str st currentState off)
  from 1(3) 1(1) show ?case
    by (auto simp: exploreTransitions.psimps split: if_splits dest!: 1(2))
next
  case (2 nfa str st off)
  then show ?case by (auto simp add: tryTransitions.psimps)
next
  case (3 nfa str st off matcher nextState info rest)
  show ?case
  proof (cases "match (snd matcher) (remaining str off)")
    case False
    with 3(5) 3(1) have "tryTransitions nfa str st off rest = Inr r"
      by (simp add: tryTransitions.psimps)
    with 3(4)[OF False] show ?thesis by simp
  next
    case True
    from 3(5) 3(1) True obtain caps nx r1 where
      caps: "record_groups info off (matcher_length (snd matcher)) (captures st) = Inr caps" and
      nxt: "sv_substr (remaining str off) (matcher_length (snd matcher)) = Inr nx" and
      r1: "exploreTransitions nfa str (st\<lparr>captures := caps\<rparr>) nextState
            (off + matcher_length (snd matcher)) = Inr r1"
      by (auto simp: tryTransitions.psimps split: sum.splits)
    from 3(2)[OF True caps nxt r1]
    have sub1: "visitedStates st \<subseteq> visitedStates (snd r1)" by simp
    show ?thesis
    proof (cases "fst r1")
      case True
      with 3(5) 3(1) \<open>match (snd matcher) (remaining str off)\<close> caps nxt r1 sub1
      show ?thesis by (simp add: tryTransitions.psimps)
    next
      case False
      with 3(5) 3(1) \<open>match (snd matcher) (remaining str off)\<close> caps nxt r1
      have "tryTransitions nfa str (if info \<noteq> None then (snd r1)\<lparr>captures := captures st\<rparr> else snd r1)
              off rest = Inr r"
        by (simp add: tryTransitions.psimps)
      from 3(3)[OF \<open>match (snd matcher) (remaining str off)\<close> caps nxt r1 False this] sub1
      show ?thesis by (auto split: if_splits)
    qed
  qed
qed

termination exploreTransitions
proof (relation "(\<lambda>x. case x of Inl (nfa, str, st, s, off) \<Rightarrow> 2 * unvisited nfa str st off
                          | Inr (nfa, str, st, off, ts) \<Rightarrow> 2 * unvisited nfa str st off + 1)
                 <*mlex*> measure (\<lambda>x. case x of Inl (nfa, str, st, s, off) \<Rightarrow> 0
                                        | Inr (nfa, str, st, off, ts) \<Rightarrow> length ts)",
       goal_cases)
  case 1
  then show ?case by (simp add: wf_mlex)
next
  case (2 nfa str st currentState off)
  then have "unvisited nfa str (st\<lparr>visitedStates := insert (currentState, off) (visitedStates st)\<rparr>) off
               < unvisited nfa str st off"
    by (intro unvisited_insert) auto
  then show ?case by (auto intro!: mlex_less)
next
  case (3 nfa str st off matcher nextState info rest caps nx)
  then have "unvisited nfa str (st\<lparr>captures := caps\<rparr>) (off + matcher_length (snd matcher))
               \<le> unvisited nfa str st off"
    by (intro unvisited_advance) auto
  then show ?case by (auto intro!: mlex_less)
next
  case (4 nfa str st off matcher nextState info rest caps nx r)
  then have "visitedStates (st\<lparr>captures := caps\<rparr>) \<subseteq> visitedStates (snd r)"
    by (intro visited_grows(1)) auto
  then have "visitedStates st \<subseteq> visitedStates (snd r)" by simp
  then have "unvisited nfa str (if info \<noteq> None then (snd r)\<lparr>captures := captures st\<rparr> else snd r) off
               \<le> unvisited nfa str st off"
    by (intro unvisited_mono) auto
  then show ?case by (auto intro!: mlex_leq)
next
  case (5 nfa str st off matcher nextState info rest)
  then show ?case by (auto intro!: mlex_leq)
qed

declare exploreTransitions.simps [simp del]

text \<open>
  \<open>simulate\<close> starts the search from every initial state in turn, with one visited set
  and one vector of captures; the empty vector says that nothing matched.
\<close>

fun simulate_from :: "NFA \<Rightarrow> string_view \<Rightarrow> simulation \<Rightarrow> nat list \<Rightarrow> error + capture list" where
  "simulate_from nfa str st [] = Inr []"
| "simulate_from nfa str st (stateId # others) =
     (if initialState (states nfa ! stateId) then
        (case exploreTransitions nfa str st stateId 0 of
           Inl e \<Rightarrow> Inl e
         | Inr r \<Rightarrow> if fst r then Inr (captures (snd r)) else simulate_from nfa str (snd r) others)
      else simulate_from nfa str st others)"

definition simulate :: "NFA \<Rightarrow> string_view \<Rightarrow> error + capture list" where
  "simulate nfa str =
     simulate_from nfa str \<lparr>visitedStates = {}, captures = replicate (nGroups nfa) None\<rparr>
       [0..<length (states nfa)]"

subsection \<open>\<open>NFA::powerset\<close>\<close>

text \<open>
  The sets of states are \<open>std::set<size_t>\<close>: ascending lists without repetition. One
  transition of the state popped from the stack:
\<close>

definition closure_step :: "transition_t \<Rightarrow> nat list \<times> nat list \<Rightarrow> nat list \<times> nat list" where
  "closure_step transition s =
     (let inputStates = fst s; stateStack = snd s; nextState = fst (snd transition) in
      if snd (fst transition) = EpsilonMatcher \<and> nextState \<notin> set inputStates
      then (emplace nextState inputStates, nextState # stateStack)
      else s)"

function closure_loop :: "NFA \<Rightarrow> nat list \<Rightarrow> nat list \<Rightarrow> error + nat list" where
  "closure_loop nfa inputStates [] = Inr inputStates"
| "closure_loop nfa inputStates (currentState # stateStack) =
     (if currentState \<ge> length (states nfa) then Inl undefined_behaviour
      else closure_loop nfa
             (fst (fold closure_step (transitions (states nfa ! currentState)) (inputStates, stateStack)))
             (snd (fold closure_step (transitions (states nfa ! currentState)) (inputStates, stateStack))))"
  by pat_completeness auto

text \<open>The states that some transition of the automaton enters.\<close>

definition targets :: "NFA \<Rightarrow> nat set" where
  "targets nfa = (\<Union>state \<in> set (states nfa). (\<lambda>t. fst (snd t)) ` set (transitions state))"

lemma set_emplace: "set (emplace g gs) = insert g (set gs)"
  by (auto simp: emplace_def set_insort_key)

lemma closure_fold:
  "fold closure_step ts (S, stk) = (S', stk') \<Longrightarrow>
   set S \<subseteq> set S' \<and> set S' \<subseteq> set S \<union> (\<lambda>t. fst (snd t)) ` set ts
   \<and> (set S' = set S \<longrightarrow> stk' = stk)"
proof (induction ts arbitrary: S stk)
  case Nil
  then show ?case by simp
next
  case (Cons t ts)
  obtain S1 stk1 where s1: "closure_step t (S, stk) = (S1, stk1)"
    by (cases "closure_step t (S, stk)") auto
  with Cons.prems have "fold closure_step ts (S1, stk1) = (S', stk')" by simp
  from Cons.IH[OF this]
  have ih: "set S1 \<subseteq> set S'" "set S' \<subseteq> set S1 \<union> (\<lambda>t. fst (snd t)) ` set ts"
    "set S' = set S1 \<longrightarrow> stk' = stk1" by auto
  from s1 have step: "(S1 = S \<and> stk1 = stk)
      \<or> (fst (snd t) \<notin> set S \<and> set S1 = insert (fst (snd t)) (set S))"
    by (auto simp: closure_step_def Let_def set_emplace split: if_splits)
  from step ih show ?case by auto
qed

termination closure_loop
proof (relation "(\<lambda>(nfa, S, stk). card (targets nfa - set S)) <*mlex*> measure (\<lambda>(nfa, S, stk). length stk)",
       goal_cases)
  case 1
  then show ?case by (simp add: wf_mlex)
next
  case (2 nfa inputStates currentState stateStack)
  define ts where "ts = transitions (states nfa ! currentState)"
  obtain S' stk' where f: "fold closure_step ts (inputStates, stateStack) = (S', stk')"
    by (cases "fold closure_step ts (inputStates, stateStack)") auto
  from closure_fold[OF f]
  have sub: "set inputStates \<subseteq> set S'" "set S' \<subseteq> set inputStates \<union> (\<lambda>t. fst (snd t)) ` set ts"
    and same: "set S' = set inputStates \<longrightarrow> stk' = stateStack" by auto
  from 2 have "(\<lambda>t. fst (snd t)) ` set ts \<subseteq> targets nfa"
    unfolding targets_def ts_def by (force intro!: bexI[of _ "states nfa ! currentState"])
  with sub have in_t: "set S' - set inputStates \<subseteq> targets nfa" by auto
  have fin: "finite (targets nfa)" unfolding targets_def by simp
  show ?case
  proof (cases "set S' = set inputStates")
    case True
    with same f show ?thesis
      unfolding ts_def by (auto intro!: mlex_leq)
  next
    case False
    with sub obtain x where x: "x \<in> set S'" "x \<notin> set inputStates" by auto
    with in_t have "x \<in> targets nfa - set inputStates" "x \<notin> targets nfa - set S'" by auto
    with sub have "targets nfa - set S' \<subset> targets nfa - set inputStates" by auto
    then have "card (targets nfa - set S') < card (targets nfa - set inputStates)"
      using fin by (intro psubset_card_mono) auto
    with f show ?thesis
      unfolding ts_def by (auto intro!: mlex_less)
  qed
qed

text \<open>
  The lambda \<open>epsilonClosure\<close>: the stack first holds the input states, pushed in
  ascending order.
\<close>

definition epsilonClosure :: "NFA \<Rightarrow> nat list \<Rightarrow> error + nat list" where
  "epsilonClosure nfa inputStates = closure_loop nfa inputStates (rev inputStates)"

text \<open>
  The states reached by consuming \<open>c\<close>. The view \<open>std::string_view(&c, 1)\<close> is not empty,
  so no matcher reads the byte after it.
\<close>

definition consume :: "NFA \<Rightarrow> char \<Rightarrow> nat list \<Rightarrow> error + nat list" where
  "consume nfa c currentStates =
     fold (\<lambda>state r. and_then r (\<lambda>newStates.
             if state \<ge> length (states nfa) then Inl undefined_behaviour
             else Inr (fold (\<lambda>transition new.
                               if matcher_length (snd (fst transition)) = 1
                                  \<and> match (snd (fst transition)) \<lparr>sv_chars = [c], sv_past = CHR 0x00\<rparr>
                               then emplace (fst (snd transition)) new else new)
                          (transitions (states nfa ! state)) newStates)))
       currentStates (Inr [])"

fun powerset_loop :: "NFA \<Rightarrow> nat list \<Rightarrow> string \<Rightarrow> error + nat list" where
  "powerset_loop nfa currentStates [] = Inr currentStates"
| "powerset_loop nfa currentStates (c # cs) =
     and_then (epsilonClosure nfa currentStates)
       (\<lambda>closed. and_then (consume nfa c closed) (\<lambda>newStates. powerset_loop nfa newStates cs))"

text \<open>
  \<open>powerset\<close>. Every state of a closure has been popped from the stack, hence is in
  range when the last loop reads its \<open>finalState\<close>.
\<close>

definition powerset :: "NFA \<Rightarrow> string_view \<Rightarrow> error + bool" where
  "powerset nfa str =
     and_then (powerset_loop nfa (filter (\<lambda>stateId. initialState (states nfa ! stateId))
                                    [0..<length (states nfa)]) (sv_chars str))
       (\<lambda>currentStates. and_then (epsilonClosure nfa currentStates)
          (\<lambda>closed. Inr (list_ex (\<lambda>state. finalState (states nfa ! state)) closed)))"

subsection \<open>Compiling and running, as \<open>main\<close> does\<close>

text \<open>\<open>NFA(regex, optimize).powerset(str)\<close> and \<open>NFA(regex, optimize).simulate(str)\<close>.\<close>

definition accepts :: "string \<Rightarrow> bool \<Rightarrow> string_view \<Rightarrow> error + bool" where
  "accepts regex opt str = and_then (compile regex opt) (\<lambda>nfa. powerset nfa str)"

definition capture_groups :: "string \<Rightarrow> bool \<Rightarrow> string_view \<Rightarrow> error + capture list" where
  "capture_groups regex opt str = and_then (compile regex opt) (\<lambda>nfa. simulate nfa str)"

subsection \<open>The mirror invariant\<close>


section \<open>Termination of the merging of quantifiers\<close>

lemma cast_size: "cast T n = Some (g, c) \<Longrightarrow> size c < size n"
  by (cases T; cases n) auto

lemma merge_performed_size: "merge_performed T1 T2 n = Some n' \<Longrightarrow> size n' < size n"
  unfolding merge_performed_def
  by (cases T1) (auto split: option.splits if_splits dest!: cast_size)

lemma merge_oneor_size:
  "merge_oneor_hh_merge_oneor_h_dom (Inl (T1, T2, n)) \<Longrightarrow> size (merge_oneor_hh T1 T2 n) \<le> size n"
  "merge_oneor_hh_merge_oneor_h_dom (Inr (Ts, n)) \<Longrightarrow> size (merge_oneor_h Ts n) \<le> size n"
proof (induction rule: merge_oneor_hh_merge_oneor_h.pinduct)
  case (1 T1 T2 n)
  show ?case
  proof (cases "merge_performed T1 T2 n")
    case None
    with 1(1) show ?thesis by (simp add: merge_oneor_hh.psimps)
  next
    case (Some n')
    from 1(2)[OF Some] merge_performed_size[OF Some] 1(1) Some
    show ?thesis by (simp add: merge_oneor_hh.psimps)
  qed
next
  case (2 n)
  then show ?case by (simp add: merge_oneor_h.psimps)
next
  case (3 T Ts n)
  then show ?case by (simp add: merge_oneor_h.psimps)
qed

termination merge_oneor_hh
proof (relation "(\<lambda>x. case x of Inl (T1, T2, n) \<Rightarrow> size n | Inr (Ts, n) \<Rightarrow> size n)
                   <*mlex*> measure (\<lambda>x. case x of Inl (T1, T2, n) \<Rightarrow> 0 | Inr (Ts, n) \<Rightarrow> Suc (length Ts))",
       goal_cases)
  case 1
  then show ?case by (simp add: wf_mlex)
next
  case (2 T1 T2 n n')
  then show ?case by (auto intro!: mlex_less dest: merge_performed_size)
next
  case (3 T Ts n)
  then show ?case by (auto intro!: mlex_leq)
next
  case (4 T Ts n)
  then show ?case by (auto intro!: mlex_leq dest: merge_oneor_size(1))
qed

section \<open>The character class on an empty view\<close>

lemma class_match_nonempty:
  "match (ClassMatcher k) \<lparr>sv_chars = c # s, sv_past = z\<rparr> = (invert k \<noteq> covers k c)"
  by (auto simp add: class_match_def non_inverting_match_def sv_front_def covers_def list_ex_iff)

lemma class_match_empty:
  "match (ClassMatcher k) \<lparr>sv_chars = [], sv_past = z\<rparr> = (invert k \<noteq> covers k z)"
  by (auto simp add: class_match_def non_inverting_match_def sv_front_def covers_def list_ex_iff)

text \<open>
  Claim C4 says that the match of a character class on a string \<open>s\<close> holds exactly when
  \<open>s\<close> is not empty and \<open>invert\<close> differs from "some interval covers \<open>s[0]\<close>", so that the
  match on the empty string fails also for an inverted class. \<open>CharacterClassMatcher::match\<close>
  has no test of emptiness (its siblings \<open>CharacterMatcher\<close> and \<open>UniversalMatcher\<close> have one):
  on the empty view of a NUL-terminated string, the inverted class \<open>[^a]\<close> reads the NUL
  and matches.
\<close>

theorem class_match_empty_view:
  "match (ClassMatcher \<lparr>invert = True, intervals = [(CHR ''a'', CHR ''a'')]\<rparr>) (view []) = True"
  by (simp add: class_match_def non_inverting_match_def view_def sv_front_def schar_def)

section \<open>The class that holds only the inverting mark\<close>

text \<open>
  Claim C10: the pattern \<open>[^]\<close>, a class that holds only an unescaped \<open>^\<close>, is rejected by
  the parser with the error of the empty character class, although the matcher of an
  inverted class without intervals accepts every character.
\<close>

theorem empty_inverted_class_rejected:
  "buildAST ''[^]'' optimize = Inl (syntax_error ''empty character class'')
   \<and> match (ClassMatcher \<lparr>invert = True, intervals = []\<rparr>) \<lparr>sv_chars = c # s, sv_past = z\<rparr>"
proof -
  have "parse ''[^]'' = Inl (syntax_error ''empty character class'')"
    by code_simp
  then show ?thesis
    by (simp add: buildAST_def class_match_def non_inverting_match_def)
qed

section \<open>Evaluation on concrete patterns\<close>

text \<open>
  The continuation of \<open>and_then\<close> is rewritten only once the first step has a value, so
  that the simplifier runs the model in the order of the program.
\<close>

lemma and_then_weak_cong: "r = r' \<Longrightarrow> and_then r f = and_then r' f"
  by simp

lemma and_then_Inr: "and_then (Inr x) f = f x"
  by (simp add: and_then_def)

lemma and_then_Inl: "and_then (Inl e) f = Inl e"
  by (simp add: and_then_def)

lemmas lowering_defs = ASTtoNFA_def newState_def newGroup_def empty_NFA_def Let_def addTransition_def
  check_def check_transition_def check_rtransition_def matcher_found_def info_valid_def
  and_then_Inr and_then_Inl ordered_def emplace_def minus1_def exact_def

lemmas optimize_defs = NFA_optimize_def sweep_def merge_into_predecessor_def merge_into_successor_def
  remove_node_def remap_def remap_transition_def

lemmas simulate_defs = simulate_def view_def remaining_def sv_empty_def sv_front_def sv_substr_def
  sv_size_def record_groups_def begin_group_def end_group_def class_match_def non_inverting_match_def
  schar_def and_then_Inr and_then_Inl exploreTransitions.simps

lemmas powerset_defs = powerset_def epsilonClosure_def closure_step_def consume_def emplace_def
  view_def sv_empty_def sv_front_def class_match_def non_inverting_match_def schar_def
  and_then_Inr and_then_Inl Let_def

lemmas run_defs = accepts_def capture_groups_def compile_def

section \<open>Acceptance by the two executors\<close>

lemma buildAST_optional_class:
  "buildAST ''[^a]?'' True =
     Inr \<lparr>root = OneOrNoneNode True
                   (Leaf (ClassMatcher \<lparr>invert = True, intervals = [(CHR ''a'', CHR ''a'')]\<rparr>)),
          anchorBegin = False, anchorEnd = False\<rparr>"
  by code_simp

text \<open>
  Claim C1 says that \<open>powerset\<close> accepts exactly when \<open>simulate\<close> returns a vector of
  captures that is not empty (\<open>main\<close> asserts it). On the pattern \<open>[^a]?\<close> and the empty
  input, \<open>powerset\<close> accepts, while \<open>simulate\<close> lets the inverted class match the empty
  remainder and then throws \<open>std::out_of_range\<close> from \<open>substr(1)\<close>: it returns no vector.
\<close>

theorem acceptance_differs_on_inverted_class:
  "accepts ''[^a]?'' True (view []) = Inr True
   \<and> capture_groups ''[^a]?'' True (view []) = Inl out_of_range"
  unfolding run_defs buildAST_optional_class
  by (simp add: lowering_defs optimize_defs simulate_defs powerset_defs cong: and_then_weak_cong)

section \<open>The two compilations of a pattern\<close>

lemma buildAST_lazy_star_of_plus:
  "buildAST ''(a+)*?(ab|bc)'' False =
     Inr \<lparr>root = ConcatenationNode
                   [KleeneStarNode False (OneOrMoreNode True (Leaf (CharacterMatcher CHR ''a''))),
                    DisjunctionNode
                      [ConcatenationNode [Leaf (CharacterMatcher CHR ''a''), Leaf (CharacterMatcher CHR ''b'')],
                       ConcatenationNode [Leaf (CharacterMatcher CHR ''b''), Leaf (CharacterMatcher CHR ''c'')]]],
          anchorBegin = False, anchorEnd = False\<rparr>"
  by code_simp

lemma buildAST_lazy_star_of_plus_optimized:
  "buildAST ''(a+)*?(ab|bc)'' True =
     Inr \<lparr>root = ConcatenationNode
                   [KleeneStarNode False (Leaf (CharacterMatcher CHR ''a'')),
                    DisjunctionNode
                      [ConcatenationNode [Leaf (CharacterMatcher CHR ''a''), Leaf (CharacterMatcher CHR ''b'')],
                       ConcatenationNode [Leaf (CharacterMatcher CHR ''b''), Leaf (CharacterMatcher CHR ''c'')]]],
          anchorBegin = False, anchorEnd = False\<rparr>"
  by code_simp

lemma unoptimized_captures:
  "accepts ''(a+)*?(ab|bc)'' False (view ''aabc'') = Inr True
   \<and> capture_groups ''(a+)*?(ab|bc)'' False (view ''aabc'') = Inr [Some (0, 4)]"
  unfolding run_defs buildAST_lazy_star_of_plus
  by (simp add: lowering_defs simulate_defs powerset_defs cong: and_then_weak_cong)

lemma optimized_captures:
  "accepts ''(a+)*?(ab|bc)'' True (view ''aabc'') = Inr True
   \<and> capture_groups ''(a+)*?(ab|bc)'' True (view ''aabc'') = Inr [Some (0, 3)]"
  unfolding run_defs buildAST_lazy_star_of_plus_optimized
  by (simp add: lowering_defs optimize_defs simulate_defs powerset_defs cong: and_then_weak_cong)

text \<open>
  Claim C2 says that a pattern compiled with and without optimization accepts the same
  inputs and that \<open>simulate\<close> gives the same capture group 0 on both (the second test of
  \<open>main\<close> reports every input where they differ). On the pattern \<open>(a+)*?(ab|bc)\<close> and
  the input \<open>aabc\<close> both compilations accept, but group 0 is \<open>aabc\<close> without optimization
  and \<open>aab\<close> with it: the optimizer turns the lazy star of a greedy plus into a lazy star,
  which tries the repetitions in another order.
\<close>

theorem optimization_changes_group_0:
  "accepts ''(a+)*?(ab|bc)'' False (view ''aabc'') = Inr True
   \<and> accepts ''(a+)*?(ab|bc)'' True (view ''aabc'') = Inr True
   \<and> capture_groups ''(a+)*?(ab|bc)'' False (view ''aabc'') = Inr [Some (0, 4)]
   \<and> capture_groups ''(a+)*?(ab|bc)'' True (view ''aabc'') = Inr [Some (0, 3)]"
  using unoptimized_captures optimized_captures by simp

section \<open>The escaped dollar at the end of a pattern\<close>

lemma parse_escaped_dollar:
  "parse [CHR ''a'', CHR 0x5C, CHR ''$''] =
     Inr \<lparr>root = Leaf (CharacterMatcher CHR ''a''), anchorBegin = False, anchorEnd = True\<rparr>"
  by code_simp

lemma buildAST_escaped_dollar:
  "buildAST [CHR ''a'', CHR 0x5C, CHR ''$''] opt =
     Inr \<lparr>root = Leaf (CharacterMatcher CHR ''a''), anchorBegin = False, anchorEnd = True\<rparr>"
proof -
  have "optimizeAST (Leaf (CharacterMatcher CHR ''a'')) = Leaf (CharacterMatcher CHR ''a'')"
    by code_simp
  then show ?thesis by (simp add: buildAST_def parse_escaped_dollar)
qed

text \<open>
  Claim C7 says that a pattern that ends with the escape sequence of the dollar takes
  that dollar as a literal: compiling \<open>a\$\<close> gives an unanchored pattern that matches the
  text \<open>a$\<close>. \<open>buildAST\<close> reads the anchors before it scans the escapes: it takes the last
  character \<open>$\<close> as the end anchor, and the scan of the rest, \<open>a\<close> and a backslash, leaves
  the single character \<open>a\<close>. The anchored automaton rejects the text \<open>a$\<close> in both
  executors. (The printer writes a literal dollar as \<open>\$\<close>, so that the round trip of
  \<open>main\<close> fails on the pattern \<open>a[$]\<close>.)
\<close>

theorem escaped_dollar_is_anchor:
  "buildAST [CHR ''a'', CHR 0x5C, CHR ''$''] opt =
     Inr \<lparr>root = Leaf (CharacterMatcher CHR ''a''), anchorBegin = False, anchorEnd = True\<rparr>
   \<and> accepts [CHR ''a'', CHR 0x5C, CHR ''$''] True (view ''a$'') = Inr False
   \<and> capture_groups [CHR ''a'', CHR 0x5C, CHR ''$''] True (view ''a$'') = Inr []"
  unfolding run_defs buildAST_escaped_dollar
  by (simp add: lowering_defs optimize_defs simulate_defs powerset_defs cong: and_then_weak_cong)

section \<open>The optional star\<close>

text \<open>
  Claim C5 says that the optimizer rewrites a \<open>OneOrNone\<close> over a \<open>KleeneStar\<close> into one
  \<open>KleeneStar\<close> whose \<open>greedy\<close> flag is the flag of the outer \<open>OneOrNone\<close>. The pattern
  \<open>a*??\<close> is a greedy \<open>OneOrNone\<close> over a lazy \<open>KleeneStar\<close>; the optimizer makes it a
  lazy \<open>KleeneStar\<close>.
\<close>

theorem optional_star_not_outer_flag:
  "buildAST ''a*??'' False =
     Inr \<lparr>root = OneOrNoneNode True (KleeneStarNode False (Leaf (CharacterMatcher CHR ''a''))),
          anchorBegin = False, anchorEnd = False\<rparr>
   \<and> buildAST ''a*??'' True =
     Inr \<lparr>root = KleeneStarNode False (Leaf (CharacterMatcher CHR ''a'')),
          anchorBegin = False, anchorEnd = False\<rparr>"
  by code_simp

text \<open>
  Claim C5, amended: \<open>_merge_oneor_hh<OneOrNoneNode, KleeneStarNode>\<close> computes
  \<open>childgreedy & element2->greedy\<close>. When the optimizer reaches a \<open>OneOrNone\<close> whose child
  is a \<open>KleeneStar\<close> (over a child that is itself no quantifier of the three kinds, as
  after the optimization of the child), the result is one \<open>KleeneStar\<close> over the inner
  child whose \<open>greedy\<close> flag is the conjunction of the two flags.
\<close>

theorem optional_star_conjunction:
  assumes "\<forall>T. cast T x = None"
  shows "optimize_node (OneOrNoneNode outer (KleeneStarNode inner x)) = KleeneStarNode (outer \<and> inner) x"
  using assms
  by (simp add: optimize_node_def instances_def merge_performed_def)

theorem optional_star_conjunction_witness:
  "(\<forall>T. cast T (Leaf (CharacterMatcher CHR ''a'')) = None)
   \<and> optimize_node (OneOrNoneNode True (KleeneStarNode False (Leaf (CharacterMatcher CHR ''a''))))
       = KleeneStarNode False (Leaf (CharacterMatcher CHR ''a''))"
proof -
  have h: "\<forall>T. cast T (Leaf (CharacterMatcher CHR ''a'')) = None"
    by simp
  show ?thesis
    using h optional_star_conjunction [OF h, of True False] by simp
qed

section \<open>Group 0 of an unanchored pattern\<close>



section \<open>The caret inside a character class\<close>

text \<open>
  Claim C6 says that an unescaped \<open>^\<close> inverts a class only at its head and is an
  ordinary member at a later position. The class \<open>[a^]\<close> is built inverted, with the
  single member \<open>a\<close>: the scan sets \<open>invert\<close> on every unescaped \<open>^\<close> of a class.
\<close>

theorem caret_after_head_inverts:
  "buildAST ''[a^]'' True =
     Inr \<lparr>root = Leaf (ClassMatcher \<lparr>invert = True, intervals = [(CHR ''a'', CHR ''a'')]\<rparr>),
          anchorBegin = False, anchorEnd = False\<rparr>"
  by code_simp

lemma length_insert_interval: "length (insert_interval p ps) = Suc (length ps)"
  by (induction ps) auto

lemma length_sort_intervals: "length (sort_intervals ps) = length ps"
  unfolding sort_intervals_def by (induction ps) (auto simp: length_insert_interval)

lemma length_merge_fold: "length (snd (fold merge_step ks s)) = length (snd s)"
  by (induction ks arbitrary: s) (auto simp: merge_step_def Let_def)

lemma normalize_not_empty: "intervals k \<noteq> [] \<Longrightarrow> \<not> empty (normalize k)"
  by (auto simp: normalize_def empty_def Let_def length_merge_fold length_sort_intervals)

lemma invert_normalize: "invert (normalize k) = invert k"
  by (simp add: normalize_def Let_def)

lemma scan_all_append:
  "scan_all st (xs @ ys) = (case scan_all st xs of Inl e \<Rightarrow> Inl e | Inr st' \<Rightarrow> scan_all st' ys)"
  by (induction xs arbitrary: st) (auto split: sum.splits)

lemma scan_class_body:
  assumes "character_class_environment st" "\<not> escaped st" "\<not> multiply_environment st"
    "\<not> lazymodifier st" "\<not> character_class_environment_interval st" "objbuff st = Some k"
    "\<forall>c\<in>set body. c \<notin> {CHR 0x5C, CHR ''['', CHR '']'', CHR ''-''}"
  shows "scan_all st body =
     Inr (st\<lparr>objbuff := Some \<lparr>invert = (invert k \<or> CHR ''^'' \<in> set body),
                              intervals = intervals k @ map (\<lambda>c. (c, c)) (filter (\<lambda>c. c \<noteq> CHR ''^'') body)\<rparr>\<rparr>)"
  using assms
proof (induction body arbitrary: st k)
  case Nil
  then show ?case by (cases st; cases k) simp
next
  case (Cons c body)
  let ?k' = "if c = CHR ''^'' then k\<lparr>invert := True\<rparr> else k\<lparr>intervals := intervals k @ [(c, c)]\<rparr>"
  let ?st' = "st\<lparr>objbuff := Some ?k', escaped := False\<rparr>"
  from Cons.prems have step: "scan st c = Inr ?st'"
    by (auto simp: scan_def class_member_def)
  have "scan_all ?st' body =
     Inr (?st'\<lparr>objbuff := Some \<lparr>invert = (invert ?k' \<or> CHR ''^'' \<in> set body),
                              intervals = intervals ?k' @ map (\<lambda>c. (c, c)) (filter (\<lambda>c. c \<noteq> CHR ''^'') body)\<rparr>\<rparr>)"
    using Cons.prems by (intro Cons.IH) auto
  with step Cons.prems(2) show ?case
    by (cases st) auto
qed

lemma optimize_node_Leaf: "optimize_node (Leaf m) = Leaf m"
  by (simp add: optimize_node_def instances_def merge_performed_def)

text \<open>
  A pattern that is one class, with a body of characters other than the backslash, the
  brackets and the dash, and a character other than \<open>^\<close> among them: the class built is
  inverted exactly when the body holds a \<open>^\<close>, and its members are the other characters
  of the body.
\<close>

lemma caret_in_plain_class:
  assumes "\<forall>c\<in>set body. c \<notin> {CHR 0x5C, CHR ''['', CHR '']'', CHR ''-''}"
    and "\<exists>c\<in>set body. c \<noteq> CHR ''^''"
  shows "buildAST (''['' @ body @ '']'') opt =
     (let k = normalize \<lparr>invert = (CHR ''^'' \<in> set body),
                         intervals = map (\<lambda>c. (c, c)) (filter (\<lambda>c. c \<noteq> CHR ''^'') body)\<rparr>
      in Inr \<lparr>root = (if singlec k then Leaf (CharacterMatcher (character k)) else Leaf (ClassMatcher k)),
              anchorBegin = False, anchorEnd = False\<rparr>)"
proof -
  let ?k0 = "\<lparr>invert = (CHR ''^'' \<in> set body),
              intervals = map (\<lambda>c. (c, c)) (filter (\<lambda>c. c \<noteq> CHR ''^'') body)\<rparr>"
  let ?st1 = "initial_parser\<lparr>character_class_environment := True,
                character_class_environment_interval := False,
                objbuff := Some \<lparr>invert = False, intervals = []\<rparr>,
                lazymodifier := False\<rparr>"
  have a: "anchors (''['' @ body @ '']'') = (False, False, ''['' @ body @ '']'')"
    by (simp add: anchors_def Let_def nth_append)
  have s1: "scan initial_parser CHR ''['' = Inr ?st1"
    by (simp add: scan_def scan_class_brackets_def initial_parser_def)
  have s2: "scan_all ?st1 body = Inr (?st1\<lparr>objbuff := Some ?k0\<rparr>)"
    using scan_class_body[of ?st1 "\<lparr>invert = False, intervals = []\<rparr>" body] assms(1)
    by (simp add: initial_parser_def)
  from assms(2) have ne: "intervals ?k0 \<noteq> []"
    by (auto simp: filter_empty_conv)
  have s3: "scan (?st1\<lparr>objbuff := Some ?k0\<rparr>) CHR '']'' =
      Inr (initial_parser\<lparr>tree := (if singlec (normalize ?k0) then Leaf (CharacterMatcher (character (normalize ?k0)))
                                     else Leaf (ClassMatcher (normalize ?k0))),
            objbuff := (if singlec (normalize ?k0) then Some (normalize ?k0) else None)\<rparr>)"
    using normalize_not_empty[OF ne]
    by (simp add: scan_def scan_class_brackets_def scan_multiply_def scan_braces_def scan_normal_def
          concatenate_def currmatcher_def initial_parser_def Let_def parent_def)
  have all: "scan_all initial_parser (CHR ''['' # body @ '']'') =
      Inr (initial_parser\<lparr>tree := (if singlec (normalize ?k0) then Leaf (CharacterMatcher (character (normalize ?k0)))
                                     else Leaf (ClassMatcher (normalize ?k0))),
            objbuff := (if singlec (normalize ?k0) then Some (normalize ?k0) else None)\<rparr>)"
    using s1 s2 s3 by (simp add: scan_all_append)
  have "parse (CHR ''['' # body @ '']'') =
     Inr \<lparr>root = (if singlec (normalize ?k0) then Leaf (CharacterMatcher (character (normalize ?k0)))
                   else Leaf (ClassMatcher (normalize ?k0))),
          anchorBegin = False, anchorEnd = False\<rparr>"
    using a
    apply (simp add: parse_def del: scan_all.simps)
    apply (simp only: all)
    apply (simp add: initial_parser_def Let_def)
    done
  then show ?thesis
    by (simp add: buildAST_def Let_def optimize_node_Leaf)
qed


lemma caret_in_plain_class_example:
  "buildAST ''[a^b]'' True =
     Inr \<lparr>root = Leaf (ClassMatcher \<lparr>invert = True, intervals = [(CHR ''a'', CHR ''b'')]\<rparr>),
          anchorBegin = False, anchorEnd = False\<rparr>"
proof -
  have h1: "\<forall>c\<in>set ''a^b''. c \<notin> {CHR 0x5C, CHR ''['', CHR '']'', CHR ''-''}"
    by simp
  have h2: "\<exists>c\<in>set ''a^b''. c \<noteq> CHR ''^''"
    by simp
  have n: "normalize \<lparr>invert = True, intervals = [(CHR ''a'', CHR ''a''), (CHR ''b'', CHR ''b'')]\<rparr>
         = \<lparr>invert = True, intervals = [(CHR ''a'', CHR ''b'')]\<rparr>"
    by code_simp
  show ?thesis
    using caret_in_plain_class [OF h1 h2, of True] by (simp add: n singlec_def)
qed

subsection \<open>An unescaped caret at any position of any class\<close>

text \<open>
  The class in course stays open along \<open>cs\<close>: the scan is inside a class before and
  after every character of \<open>cs\<close>.
\<close>

fun stays_in_class :: "parser \<Rightarrow> string \<Rightarrow> bool" where
  "stays_in_class st [] = character_class_environment st"
| "stays_in_class st (c # cs) =
     (character_class_environment st \<and>
      (case scan st c of Inl e \<Rightarrow> False | Inr st' \<Rightarrow> stays_in_class st' cs))"

lemma currmatcher_class_environment:
  "currmatcher st c = Inr (new, st') \<Longrightarrow>
   character_class_environment st' = character_class_environment st
   \<and> tree st' = tree st \<and> activenode st' = activenode st"
  by (auto simp: currmatcher_def Let_def split: if_splits option.splits)

lemma concatenate_class_environment:
  assumes "concatenate st c = Inr st'"
  shows "character_class_environment st' = character_class_environment st"
proof -
  from assms obtain new st1 where c: "currmatcher st c = Inr (new, st1)"
    by (auto simp: concatenate_def split: sum.splits)
  from assms c have "character_class_environment st' = character_class_environment st1"
    by (auto simp: concatenate_def Let_def split: list.splits option.splits prod.splits)
  with currmatcher_class_environment[OF c] show ?thesis by simp
qed

lemma scan_closing_bracket:
  assumes "character_class_environment st" "\<not> escaped st" "scan st CHR '']'' = Inr st'"
  shows "scan st CHR '']'' =
           (case concatenate (st\<lparr>character_class_environment := False\<rparr>) CHR '']'' of
              Inl e \<Rightarrow> Inl e | Inr s \<Rightarrow> Inr (s\<lparr>escaped := False\<rparr>))"
    "\<not> character_class_environment st'"
proof -
  from assms have m: "\<not> multiply_environment st" "\<not> lazymodifier st"
    "\<not> character_class_environment_interval st"
    by (auto simp: scan_def scan_class_brackets_def split: if_splits)
  with assms(1,2) show 1: "scan st CHR '']'' =
           (case concatenate (st\<lparr>character_class_environment := False\<rparr>) CHR '']'' of
              Inl e \<Rightarrow> Inl e | Inr s \<Rightarrow> Inr (s\<lparr>escaped := False\<rparr>))"
    by (simp add: scan_def scan_class_brackets_def scan_multiply_def scan_braces_def scan_normal_def)
  with assms(3) obtain s where "concatenate (st\<lparr>character_class_environment := False\<rparr>) CHR '']'' = Inr s"
    and "st' = s\<lparr>escaped := False\<rparr>"
    by (auto split: sum.splits)
  with concatenate_class_environment[of "st\<lparr>character_class_environment := False\<rparr>" "CHR '']''" s]
  show "\<not> character_class_environment st'" by simp
qed

lemma scan_unescaped_caret:
  assumes "character_class_environment st" "\<not> escaped st" "scan st CHR ''^'' = Inr st1"
  shows "\<exists>k. objbuff st = Some k \<and> st1 = st\<lparr>objbuff := Some (k\<lparr>invert := True\<rparr>)\<rparr>"
proof -
  from assms have "class_member st CHR ''^'' = Inr st1"
    by (auto simp: scan_def split: if_splits)
  with assms(2) obtain k where k: "objbuff st = Some k"
    and "st1 = st\<lparr>objbuff := Some (k\<lparr>invert := True\<rparr>), escaped := False\<rparr>"
    by (auto simp: class_member_def split: option.splits)
  with assms(2) have "st1 = st\<lparr>objbuff := Some (k\<lparr>invert := True\<rparr>)\<rparr>"
    by (cases st) simp
  with k show ?thesis by simp
qed

lemma scan_keeps_inversion:
  assumes "character_class_environment st" "objbuff st = Some k" "invert k"
    "scan st c = Inr st'" "character_class_environment st'"
  shows "\<exists>k'. objbuff st' = Some k' \<and> invert k'"
proof (cases "c = CHR 0x5C \<and> \<not> escaped st")
  case True
  with assms show ?thesis by (auto simp: scan_def)
next
  case False
  show ?thesis
  proof (cases "c = CHR '']'' \<and> \<not> escaped st")
    case True
    with scan_closing_bracket(2)[of st st'] assms show ?thesis by simp
  next
    case notclose: False
    with False assms(1,4) have "class_member st c = Inr st'"
      by (auto simp: scan_def split: if_splits)
    with assms(2,3) show ?thesis
      by (auto simp: class_member_def Let_def split: if_splits)
  qed
qed

lemma scan_all_keeps_inversion:
  "stays_in_class st cs \<Longrightarrow> scan_all st cs = Inr st' \<Longrightarrow> objbuff st = Some k \<Longrightarrow> invert k \<Longrightarrow>
   character_class_environment st' \<and> (\<exists>k'. objbuff st' = Some k' \<and> invert k')"
proof (induction cs arbitrary: st k)
  case Nil
  then show ?case by simp
next
  case (Cons c cs)
  from Cons.prems(1) obtain s where s: "scan st c = Inr s" and o: "stays_in_class s cs"
    and e: "character_class_environment st"
    by (auto split: sum.splits)
  from o have "character_class_environment s" by (cases cs) simp_all
  from scan_keeps_inversion[OF e Cons.prems(3,4) s this]
  obtain k1 where "objbuff s = Some k1" "invert k1" by blast
  moreover from Cons.prems(2) s have "scan_all s cs = Inr st'" by simp
  ultimately show ?case using Cons.IH[OF o] by blast
qed

text \<open>
  Claim C6, amended: inside a character class an unescaped \<open>^\<close> inverts the class at
  whatever position it stands. \<open>st\<close> is any state of the scan inside a class (after any
  beginning of a pattern, with or without a range pending after a dash), \<open>body\<close> is what
  follows the \<open>^\<close> up to the bracket that closes the class. Scanning the \<open>^\<close> sets the flag
  \<open>invert\<close> of the class in course and changes nothing else: the \<open>^\<close> is not accumulated as
  a member and does not end a pending range. The flag is still set at the closing bracket,
  where the scan concatenates an inverted class to the tree.
\<close>

theorem caret_in_class_inverts:
  assumes "character_class_environment st" and "\<not> escaped st"
    and "scan st CHR ''^'' = Inr st1"
    and "scan_all st1 body = Inr st2" and "stays_in_class st1 body"
    and "\<not> escaped st2" and "scan st2 CHR '']'' = Inr st3"
  shows "\<exists>k k2. objbuff st = Some k \<and> st1 = st\<lparr>objbuff := Some (k\<lparr>invert := True\<rparr>)\<rparr>
           \<and> objbuff st2 = Some k2 \<and> invert k2 \<and> invert (normalize k2)
           \<and> currmatcher (st2\<lparr>character_class_environment := False\<rparr>) CHR '']''
               = Inr (Leaf (ClassMatcher (normalize k2)),
                      st2\<lparr>character_class_environment := False, objbuff := None\<rparr>)
           \<and> scan st2 CHR '']'' =
               (case concatenate (st2\<lparr>character_class_environment := False\<rparr>) CHR '']'' of
                  Inl e \<Rightarrow> Inl e | Inr s \<Rightarrow> Inr (s\<lparr>escaped := False\<rparr>))"
proof -
  from scan_unescaped_caret[OF assms(1,2,3)] obtain k where k: "objbuff st = Some k"
    and st1: "st1 = st\<lparr>objbuff := Some (k\<lparr>invert := True\<rparr>)\<rparr>" by blast
  from scan_all_keeps_inversion[OF assms(5,4), of "k\<lparr>invert := True\<rparr>"] st1
  obtain k2 where c2: "character_class_environment st2" and k2: "objbuff st2 = Some k2"
    and i2: "invert k2" by auto
  note close = scan_closing_bracket[OF c2 assms(6,7)]
  from assms(7) close(1) obtain s where
    s: "concatenate (st2\<lparr>character_class_environment := False\<rparr>) CHR '']'' = Inr s"
    by (auto split: sum.splits)
  then obtain new s1 where
    cm: "currmatcher (st2\<lparr>character_class_environment := False\<rparr>) CHR '']'' = Inr (new, s1)"
    by (auto simp: concatenate_def split: sum.splits)
  from i2 have ns: "\<not> singlec (normalize k2)" by (simp add: singlec_def invert_normalize)
  from cm k2 assms(6) ns have
    "currmatcher (st2\<lparr>character_class_environment := False\<rparr>) CHR '']''
       = Inr (Leaf (ClassMatcher (normalize k2)),
              st2\<lparr>character_class_environment := False, objbuff := None\<rparr>)"
    by (auto simp: currmatcher_def Let_def split: if_splits)
  with k st1 k2 i2 close(1) show ?thesis by (simp add: invert_normalize)
qed

text \<open>The scan of \<open>x[a-^b]\<close>: before the \<open>^\<close>, after it, and before the closing bracket.\<close>

definition class_after_dash :: parser where
  "class_after_dash =
     \<lparr>tree = Leaf (CharacterMatcher CHR ''x''), activenode = [[]],
      balanced_brackets = 0, escaped = False,
      multiply_environment = False, multiply_environment_max = False,
      multiply_environment_max_str = False,
      character_class_environment = True,
      character_class_environment_interval = True, lazymodifier = False,
      objbuff = Some \<lparr>invert = False, intervals = [(CHR ''a'', CHR ''a'')]\<rparr>\<rparr>"

definition class_after_caret :: parser where
  "class_after_caret =
     class_after_dash\<lparr>objbuff := Some \<lparr>invert = True, intervals = [(CHR ''a'', CHR ''a'')]\<rparr>\<rparr>"

definition class_before_bracket :: parser where
  "class_before_bracket =
     class_after_dash\<lparr>character_class_environment_interval := False,
                       objbuff := Some \<lparr>invert = True, intervals = [(CHR ''a'', CHR ''b'')]\<rparr>\<rparr>"

theorem caret_in_class_inverts_witness:
  "scan_all initial_parser ''x[a-'' = Inr class_after_dash
   \<and> character_class_environment class_after_dash \<and> \<not> escaped class_after_dash
   \<and> scan class_after_dash CHR ''^'' = Inr class_after_caret
   \<and> scan_all class_after_caret ''b'' = Inr class_before_bracket
   \<and> stays_in_class class_after_caret ''b''
   \<and> \<not> escaped class_before_bracket
   \<and> currmatcher (class_before_bracket\<lparr>character_class_environment := False\<rparr>) CHR '']''
        = Inr (Leaf (ClassMatcher \<lparr>invert = True, intervals = [(CHR ''a'', CHR ''b'')]\<rparr>),
               class_before_bracket\<lparr>character_class_environment := False, objbuff := None\<rparr>)"
proof -
  have h0: "scan_all initial_parser ''x[a-'' = Inr class_after_dash"
    by code_simp
  have h1: "character_class_environment class_after_dash" "\<not> escaped class_after_dash"
    by (simp_all add: class_after_dash_def)
  have h3: "scan class_after_dash CHR ''^'' = Inr class_after_caret"
    by code_simp
  have h4: "scan_all class_after_caret ''b'' = Inr class_before_bracket"
    by code_simp
  have h5: "stays_in_class class_after_caret ''b''"
    by code_simp
  have h6: "\<not> escaped class_before_bracket"
    by (simp add: class_before_bracket_def class_after_dash_def)
  have h7: "scan class_before_bracket CHR '']'' =
      Inr \<lparr>tree = ConcatenationNode
                    [Leaf (CharacterMatcher CHR ''x''),
                     Leaf (ClassMatcher \<lparr>invert = True, intervals = [(CHR ''a'', CHR ''b'')]\<rparr>)],
            activenode = [[1], []], balanced_brackets = 0, escaped = False,
            multiply_environment = False, multiply_environment_max = False,
            multiply_environment_max_str = False,
            character_class_environment = False,
            character_class_environment_interval = False, lazymodifier = False,
            objbuff = None\<rparr>"
    by code_simp
  have n: "normalize \<lparr>invert = True, intervals = [(CHR ''a'', CHR ''b'')]\<rparr>
         = \<lparr>invert = True, intervals = [(CHR ''a'', CHR ''b'')]\<rparr>"
    by code_simp
  have o: "objbuff class_before_bracket = Some \<lparr>invert = True, intervals = [(CHR ''a'', CHR ''b'')]\<rparr>"
    by (simp add: class_before_bracket_def)
  from caret_in_class_inverts [OF h1 h3 h4 h5 h6 h7] o n
  have "currmatcher (class_before_bracket\<lparr>character_class_environment := False\<rparr>) CHR '']''
        = Inr (Leaf (ClassMatcher \<lparr>invert = True, intervals = [(CHR ''a'', CHR ''b'')]\<rparr>),
               class_before_bracket\<lparr>character_class_environment := False, objbuff := None\<rparr>)"
    by auto
  with h0 h1 h3 h4 h5 h6 show ?thesis by simp
qed

section \<open>The empty pattern\<close>

text \<open>The automaton of the empty pattern, with and without optimization.\<close>

definition empty_pattern_NFA :: NFA where
  "empty_pattern_NFA =
     \<lparr>states =
        [\<lparr>initialState = True, finalState = False,
          transitions = [((0, EpsilonMatcher), 1, Some \<lparr>begingroups = [0], endgroups = [0]\<rparr>),
                         ((1, UniversalMatcher), 0, None)],
          rtransitions = [((1, UniversalMatcher), 0, None)]\<rparr>,
         \<lparr>initialState = False, finalState = True,
          transitions = [((2, UniversalMatcher), 1, None)],
          rtransitions = [((2, UniversalMatcher), 1, None),
                          ((0, EpsilonMatcher), 0, Some \<lparr>begingroups = [0], endgroups = [0]\<rparr>)]\<rparr>],
      matchers = [EpsilonMatcher, UniversalMatcher, UniversalMatcher],
      nGroups = 1\<rparr>"

lemma buildAST_empty:
  "buildAST [] opt = Inr \<lparr>root = Leaf EpsilonMatcher, anchorBegin = False, anchorEnd = False\<rparr>"
  by (simp add: buildAST_def parse_def anchors_def initial_parser_def optimize_node_Leaf)

lemma compile_empty: "compile [] opt = Inr empty_pattern_NFA"
  unfolding compile_def buildAST_empty empty_pattern_NFA_def
  by (cases opt) (simp_all add: lowering_defs optimize_defs cong: and_then_weak_cong)

lemma closure_initial: "epsilonClosure empty_pattern_NFA [0] = Inr [0, Suc 0]"
  unfolding empty_pattern_NFA_def by (simp add: powerset_defs)

lemma closure_both: "epsilonClosure empty_pattern_NFA [0, Suc 0] = Inr [0, Suc 0]"
  unfolding empty_pattern_NFA_def by (simp add: powerset_defs)

lemma consume_both: "consume empty_pattern_NFA c [0, Suc 0] = Inr [0, Suc 0]"
  unfolding empty_pattern_NFA_def by (simp add: powerset_defs)

lemma powerset_loop_both: "powerset_loop empty_pattern_NFA [0, Suc 0] cs = Inr [0, Suc 0]"
  by (induction cs) (simp_all add: closure_both consume_both and_then_Inr)

lemma powerset_empty_pattern: "powerset empty_pattern_NFA str = Inr True"
proof (cases "sv_chars str")
  case Nil
  have "filter (\<lambda>stateId. initialState (states empty_pattern_NFA ! stateId))
          [0..<length (states empty_pattern_NFA)] = [0]"
    by (simp add: empty_pattern_NFA_def)
  with Nil show ?thesis
    by (simp add: powerset_def closure_initial and_then_Inr) (simp add: empty_pattern_NFA_def)
next
  case (Cons c cs)
  have "filter (\<lambda>stateId. initialState (states empty_pattern_NFA ! stateId))
          [0..<length (states empty_pattern_NFA)] = [0]"
    by (simp add: empty_pattern_NFA_def)
  with Cons show ?thesis
    by (simp add: powerset_def closure_initial closure_both consume_both powerset_loop_both and_then_Inr)
       (simp add: empty_pattern_NFA_def)
qed

lemma final_state_consumes:
  "off \<le> sv_size str \<Longrightarrow> \<forall>k\<ge>off. (1, k) \<notin> visitedStates st \<Longrightarrow>
   \<exists>st'. exploreTransitions empty_pattern_NFA str st 1 off = Inr (True, st') \<and> captures st' = captures st"
proof (induction "sv_size str - off" arbitrary: off st)
  case 0
  then have "sv_empty (remaining str off)"
    by (simp add: sv_empty_def remaining_def sv_size_def)
  then show ?case
    by (subst exploreTransitions.simps) (simp add: empty_pattern_NFA_def)
next
  case (Suc n)
  then have lt: "off < sv_size str" by simp
  then have ne: "\<not> sv_empty (remaining str off)"
    by (simp add: sv_empty_def remaining_def sv_size_def)
  let ?st1 = "st\<lparr>visitedStates := insert (1, off) (visitedStates st)\<rparr>"
  have "\<exists>st'. exploreTransitions empty_pattern_NFA str (?st1\<lparr>captures := captures st\<rparr>) 1 (Suc off)
          = Inr (True, st') \<and> captures st' = captures (?st1\<lparr>captures := captures st\<rparr>)"
    using Suc.prems Suc.hyps(2) lt by (intro Suc.hyps(1)) auto
  then obtain st' where st': "exploreTransitions empty_pattern_NFA str (?st1\<lparr>captures := captures st\<rparr>) 1 (Suc off)
          = Inr (True, st')" "captures st' = captures st"
    by auto
  have sub: "sv_substr (remaining str off) 1 = Inr (remaining str (Suc off))"
    using lt by (simp add: sv_substr_def remaining_def sv_size_def)
  have "exploreTransitions empty_pattern_NFA str st 1 off = Inr (True, st')"
    using Suc.prems(2) ne st'(1) sub
    by (subst exploreTransitions.simps) (simp add: empty_pattern_NFA_def record_groups_def)
  with st'(2) show ?case by simp
qed

lemma simulate_empty_pattern: "simulate empty_pattern_NFA str = Inr [Some (0, 0)]"
proof -
  let ?st0 = "\<lparr>visitedStates = {}, captures = replicate (nGroups empty_pattern_NFA) None\<rparr>"
  let ?st1 = "\<lparr>visitedStates = {(0, 0)}, captures = [Some (0, 0)]\<rparr>"
  obtain st' where st': "exploreTransitions empty_pattern_NFA str ?st1 1 0 = Inr (True, st')"
    "captures st' = [Some (0, 0)]"
    using final_state_consumes[of 0 str ?st1] by auto
  have "exploreTransitions empty_pattern_NFA str ?st0 0 0 = Inr (True, st')"
    using st'(1)
    by (subst exploreTransitions.simps)
       (simp add: empty_pattern_NFA_def record_groups_def begin_group_def end_group_def and_then_Inr
          sv_substr_def)
  with st'(2) show ?thesis
    by (simp add: simulate_def) (simp add: empty_pattern_NFA_def)
qed

text \<open>
  Claim C9: compiling the empty pattern succeeds, the root of its tree is the single
  leaf Epsilon and no anchor is set, and the automaton accepts every input in both
  executors: \<open>powerset\<close> returns true and \<open>simulate\<close> returns the vector of its one
  group (group 0, the empty slice at offset 0), with and without optimization.
\<close>

theorem empty_pattern_accepts_everything:
  "buildAST [] opt = Inr \<lparr>root = Leaf EpsilonMatcher, anchorBegin = False, anchorEnd = False\<rparr>
   \<and> accepts [] opt str = Inr True
   \<and> capture_groups [] opt str = Inr [Some (0, 0)]"
  by (simp add: buildAST_empty accepts_def capture_groups_def compile_empty and_then_Inr
        powerset_empty_pattern simulate_empty_pattern)

section \<open>The mirror invariant of a compiled automaton\<close>






section \<open>Group 0 and the anchors\<close>

subsection \<open>The frame of group 0 in the automaton\<close>






















subsection \<open>What the lowering adds to the automaton\<close>
















































subsection \<open>The automaton before \<open>NFA::optimize\<close>\<close>


















subsection \<open>\<open>NFA::optimize\<close> keeps the frame\<close>




















subsection \<open>Group 0 of a match\<close>






end
